theory Spec2Isabelle
  imports Main "HOL-Library.Char_ord" "HOL-Library.List_Lexorder" "HOL-Library.AList"
begin

section \<open>JavaScript strings and the regular expressions of the schemas\<close>

text \<open>
  A JavaScript string is a sequence of UTF-16 code units; \<open>length\<close>, \<open>trim\<close>,
  \<open>toLowerCase\<close> and the regular expressions of the source work on code units. A HOL
  \<open>char\<close> stands for one code unit in the range 0..255 (ASCII and Latin-1), so
  \<open>length\<close> on HOL strings is the \<open>.length\<close> that zod's \<open>min\<close> and \<open>max\<close> read.
\<close>

definition code_unit :: "char \<Rightarrow> nat" where
  "code_unit c = of_char c"

text \<open>\<open>[a-zA-Z]\<close>, \<open>\<bsol>d\<close> and \<open>[0-9]\<close>, \<open>[1-9]\<close>.\<close>

definition is_alpha :: "char \<Rightarrow> bool" where
  "is_alpha c = ((65 \<le> code_unit c \<and> code_unit c \<le> 90) \<or> (97 \<le> code_unit c \<and> code_unit c \<le> 122))"

definition is_digit :: "char \<Rightarrow> bool" where
  "is_digit c = (48 \<le> code_unit c \<and> code_unit c \<le> 57)"

definition is_digit19 :: "char \<Rightarrow> bool" where
  "is_digit19 c = (49 \<le> code_unit c \<and> code_unit c \<le> 57)"

text \<open>
  \<open>\<bsol>s\<close>: the white space and line terminator code units. Below 256 these are TAB, LF,
  VT, FF, CR, SPACE and NO-BREAK SPACE.
\<close>

definition is_ws :: "char \<Rightarrow> bool" where
  "is_ws c = (code_unit c \<in> {9, 10, 11, 12, 13, 32, 160})"

text \<open>\<open>String.prototype.trim\<close> strips the same code units from both ends.\<close>

definition trim :: "string \<Rightarrow> string" where
  "trim s = rev (dropWhile is_ws (rev (dropWhile is_ws s)))"

text \<open>
  \<open>String.prototype.toLowerCase\<close> on code units below 256: A..Z and the Latin-1 capitals
  0xC0..0xDE (without the multiplication sign 0xD7) move up by 32.
\<close>

definition lower_char :: "char \<Rightarrow> char" where
  "lower_char c =
     (let n = code_unit c in
      if (65 \<le> n \<and> n \<le> 90) \<or> (192 \<le> n \<and> n \<le> 222 \<and> n \<noteq> 215) then char_of (n + 32) else c)"

definition toLowerCase :: "string \<Rightarrow> string" where
  "toLowerCase s = map lower_char s"

text \<open>
  Every regular expression of the source is anchored (\<open>^...$\<close>) and is a sequence of
  character classes, each with a repetition: \<open>c\<close> is \<open>{1,1}\<close>, \<open>c*\<close> is \<open>{0,}\<close>,
  \<open>c+\<close> is \<open>{1,}\<close>, \<open>c{m,n}\<close>. \<open>regex_test\<close> is \<open>RegExp.prototype.test\<close> for this
  fragment: it tries every number of repetitions the bounds allow.
\<close>

datatype rx_item = Rep (rx_class: "char \<Rightarrow> bool") (rx_min: nat) (rx_max: "nat option")

fun regex_test :: "rx_item list \<Rightarrow> string \<Rightarrow> bool" where
  "regex_test [] s = (s = [])"
| "regex_test (Rep p lo hi # r) s =
     list_ex (\<lambda>n. list_all p (take n s) \<and> regex_test r (drop n s))
       [lo ..< Suc (case hi of None \<Rightarrow> length s | Some h \<Rightarrow> min h (length s))]"

definition lit :: "char \<Rightarrow> rx_item" where
  "lit c = Rep (\<lambda>x. x = c) 1 (Some 1)"

definition star :: "(char \<Rightarrow> bool) \<Rightarrow> rx_item" where
  "star p = Rep p 0 None"

definition plus :: "(char \<Rightarrow> bool) \<Rightarrow> rx_item" where
  "plus p = Rep p 1 None"

text \<open>\<open>/^[a-zA-Z\<bsol>s]*$/\<close> (first and last name).\<close>

definition name_regex :: "rx_item list" where
  "name_regex = [star (\<lambda>c. is_alpha c \<or> is_ws c)]"

text \<open>\<open>/^\<bsol>+[1-9]\<bsol>d{1,14}$/\<close> (phone of the applicant and of the referee).\<close>

definition phone_regex :: "rx_item list" where
  "phone_regex = [lit CHR ''+'', Rep is_digit19 1 (Some 1), Rep is_digit 1 (Some 14)]"

text \<open>\<open>/^\<bsol>d{4}$/\<close> (certificate year).\<close>

definition year_regex :: "rx_item list" where
  "year_regex = [Rep is_digit 4 (Some 4)]"

text \<open>\<open>/^[^\<bsol>s@]+@[^\<bsol>s@]+\<bsol>.[^\<bsol>s@]+$/\<close> (email check of \<open>submitApplicationForm\<close>).\<close>

definition not_ws_at :: "char \<Rightarrow> bool" where
  "not_ws_at c = (\<not> is_ws c \<and> c \<noteq> CHR ''@'')"

definition emailRegex :: "rx_item list" where
  "emailRegex = [plus not_ws_at, lit CHR ''@'', plus not_ws_at, lit CHR ''.'', plus not_ws_at]"

text \<open>\<open>/^[0-9+]+$/\<close> (phone check of \<open>submitApplicationForm\<close>).\<close>

definition phoneRegex :: "rx_item list" where
  "phoneRegex = [plus (\<lambda>c. is_digit c \<or> c = CHR ''+'')]"

section \<open>Time values of \<open>Date\<close>\<close>

text \<open>
  A \<open>Date\<close> holds a time value: milliseconds since 1970-01-01T00:00:00Z, or NaN
  (\<open>None\<close>, an Invalid Date). The functions below are the abstract operations of the
  language standard that \<open>new Date(string)\<close>, \<open>getFullYear\<close> and \<open>setFullYear\<close>
  are defined by.
\<close>

definition msPerDay :: int where
  "msPerDay = 86400000"

definition Day :: "int \<Rightarrow> int" where
  "Day t = t div msPerDay"

definition TimeWithinDay :: "int \<Rightarrow> int" where
  "TimeWithinDay t = t mod msPerDay"

definition DayFromYear :: "int \<Rightarrow> int" where
  "DayFromYear y = 365 * (y - 1970) + (y - 1969) div 4 - (y - 1901) div 100 + (y - 1601) div 400"

definition InLeapYear :: "int \<Rightarrow> bool" where
  "InLeapYear y = (y mod 4 = 0 \<and> (y mod 100 \<noteq> 0 \<or> y mod 400 = 0))"

text \<open>
  The year of a day number: the largest \<open>y\<close> with \<open>DayFromYear y \<le> d\<close>. The estimate
  from the mean length of a year is off by one at most (\<open>YearFromDay_largest\<close> below).
\<close>

definition YearFromDay :: "int \<Rightarrow> int" where
  "YearFromDay d =
     (let y0 = 1970 + (d * 400) div 146097 in
      if DayFromYear (y0 + 1) \<le> d then y0 + 1
      else if DayFromYear y0 \<le> d then y0
      else y0 - 1)"

definition YearFromTime :: "int \<Rightarrow> int" where
  "YearFromTime t = YearFromDay (Day t)"

text \<open>The day within the year on which month \<open>m\<close> (0 = January) starts.\<close>

definition month_start :: "bool \<Rightarrow> int \<Rightarrow> int" where
  "month_start leap m =
     [0, 31, 59, 90, 120, 151, 181, 212, 243, 273, 304, 334] ! nat m
       + (if leap \<and> 2 \<le> m then 1 else 0)"

definition DayWithinYear :: "int \<Rightarrow> int" where
  "DayWithinYear t = Day t - DayFromYear (YearFromTime t)"

definition MonthFromTime :: "int \<Rightarrow> int" where
  "MonthFromTime t =
     (let dwy = DayWithinYear t; leap = InLeapYear (YearFromTime t) in
      if dwy < month_start leap 1 then 0
      else if dwy < month_start leap 2 then 1
      else if dwy < month_start leap 3 then 2
      else if dwy < month_start leap 4 then 3
      else if dwy < month_start leap 5 then 4
      else if dwy < month_start leap 6 then 5
      else if dwy < month_start leap 7 then 6
      else if dwy < month_start leap 8 then 7
      else if dwy < month_start leap 9 then 8
      else if dwy < month_start leap 10 then 9
      else if dwy < month_start leap 11 then 10
      else 11)"

definition DateFromTime :: "int \<Rightarrow> int" where
  "DateFromTime t =
     DayWithinYear t - month_start (InLeapYear (YearFromTime t)) (MonthFromTime t) + 1"

definition MakeDay :: "int \<Rightarrow> int \<Rightarrow> int \<Rightarrow> int" where
  "MakeDay year month date =
     (let ym = year + month div 12; mn = month mod 12 in
      DayFromYear ym + month_start (InLeapYear ym) mn + date - 1)"

definition MakeDate :: "int \<Rightarrow> int \<Rightarrow> int" where
  "MakeDate day time = day * msPerDay + time"

definition TimeClip :: "int \<Rightarrow> int option" where
  "TimeClip t = (if \<bar>t\<bar> \<le> 8640000000000000 then Some t else None)"

text \<open>
  Local time. The offset of the host's time zone from UTC, in milliseconds, is a function
  of the instant: \<open>tza_utc z t\<close> is the offset in effect at the UTC time value \<open>t\<close>,
  \<open>tza_local z t\<close> the offset in effect when the local clock shows \<open>t\<close>. \<open>LocalTime\<close>
  reads the first and \<open>UTC\<close> the second, so a setter that goes through local time
  takes the offset of the old instant going in and that of the new instant coming out.
\<close>

record zone =
  tza_utc :: "int \<Rightarrow> int"
  tza_local :: "int \<Rightarrow> int"

definition LocalTime :: "zone \<Rightarrow> int \<Rightarrow> int" where
  "LocalTime z t = t + tza_utc z t"

definition UTC :: "zone \<Rightarrow> int \<Rightarrow> int" where
  "UTC z t = t - tza_local z t"

definition getFullYear :: "zone \<Rightarrow> int option \<Rightarrow> int option" where
  "getFullYear z tv = (case tv of None \<Rightarrow> None | Some t \<Rightarrow> Some (YearFromTime (LocalTime z t)))"

definition setFullYear :: "zone \<Rightarrow> int option \<Rightarrow> int option \<Rightarrow> int option" where
  "setFullYear z tv year =
     (case year of
        None \<Rightarrow> None
      | Some y \<Rightarrow>
          (let t = (case tv of None \<Rightarrow> 0 | Some t0 \<Rightarrow> LocalTime z t0);
               newDate = MakeDate (MakeDay y (MonthFromTime t) (DateFromTime t)) (TimeWithinDay t)
           in TimeClip (UTC z newDate)))"

text \<open>
  A zone whose offset never changes (Lagos: one hour ahead of UTC), and two whose offset
  has changed. Khartoum: two hours ahead until 2000-01-15 12:00 local time, three hours
  until 2017-11-01 00:00 local time, two hours since (its summer time of the years before
  1985 is left out). Apia: eleven hours behind UTC until the end of 2011-12-29 local
  time, thirteen hours ahead from 2011-12-31 (its summer time of the years 2010 to 2021,
  in force from September to April, is left out; none was in force in February 2007 or
  in February 2025).
\<close>

definition fixed_zone :: "int \<Rightarrow> zone" where
  "fixed_zone off = \<lparr>tza_utc = (\<lambda>t. off), tza_local = (\<lambda>t. off)\<rparr>"

definition lagos :: zone where
  "lagos = fixed_zone 3600000"

definition khartoum :: zone where
  "khartoum =
     \<lparr>tza_utc = (\<lambda>t. if t < 947930400000 then 7200000
                       else if t < 1509483600000 then 10800000 else 7200000),
      tza_local = (\<lambda>t. if t < 947937600000 then 7200000
                         else if t < 1509494400000 then 10800000 else 7200000)\<rparr>"

definition apia :: zone where
  "apia =
     \<lparr>tza_utc = (\<lambda>t. if t < 1325239200000 then - 39600000 else 46800000),
      tza_local = (\<lambda>t. if t < 1325203200000 then - 39600000 else 46800000)\<rparr>"

text \<open>
  \<open>new Date(string)\<close>. The date-only form \<open>YYYY-MM-DD\<close> of a calendar date is parsed as
  midnight UTC of that date. Every other string (date-time forms, out-of-range fields,
  the formats an engine accepts beyond the standard) is left to \<open>fb\<close>, the rest of the
  engine's parser, about which nothing is assumed.
\<close>

definition digits_val :: "string \<Rightarrow> int" where
  "digits_val ds = foldl (\<lambda>a c. 10 * a + (int (code_unit c) - 48)) 0 ds"

definition days_in_month :: "int \<Rightarrow> int \<Rightarrow> int" where
  "days_in_month y m =
     (if m = 2 then (if InLeapYear y then 29 else 28)
      else if m = 4 \<or> m = 6 \<or> m = 9 \<or> m = 11 then 30 else 31)"

definition parse_iso_date :: "string \<Rightarrow> (int \<times> int \<times> int) option" where
  "parse_iso_date s =
     (if length s = 10 \<and> s ! 4 = CHR ''-'' \<and> s ! 7 = CHR ''-''
         \<and> list_all is_digit (take 4 s) \<and> list_all is_digit (take 2 (drop 5 s))
         \<and> list_all is_digit (drop 8 s)
      then (let y = digits_val (take 4 s); m = digits_val (take 2 (drop 5 s));
                d = digits_val (drop 8 s)
            in if 1 \<le> m \<and> m \<le> 12 \<and> 1 \<le> d \<and> d \<le> days_in_month y m then Some (y, m, d) else None)
      else None)"

definition Date_new :: "(string \<Rightarrow> int option) \<Rightarrow> string \<Rightarrow> int option" where
  "Date_new fb s =
     (case parse_iso_date s of
        Some (y, m, d) \<Rightarrow> TimeClip (MakeDate (MakeDay y (m - 1) d) 0)
      | None \<Rightarrow> fb s)"

text \<open>\<open>a <= b\<close> on two dates compares the time values; it is false when either is NaN.\<close>

definition date_le :: "int option \<Rightarrow> int option \<Rightarrow> bool" where
  "date_le a b = (case a of None \<Rightarrow> False | Some x \<Rightarrow> (case b of None \<Rightarrow> False | Some y \<Rightarrow> x \<le> y))"

text \<open>
  \<^verbatim>\<open>const minBirthDate = new Date('2025-02-27');\<close>
  \<^verbatim>\<open>minBirthDate.setFullYear(minBirthDate.getFullYear() - 18);\<close>
\<close>

definition minBirthDate :: "(string \<Rightarrow> int option) \<Rightarrow> zone \<Rightarrow> int option" where
  "minBirthDate fb z =
     (let d = Date_new fb ''2025-02-27''
      in setFullYear z d (map_option (\<lambda>y. y - 18) (getFullYear z d)))"

text \<open>The refinement of \<open>dateOfBirth\<close>: \<^verbatim>\<open>date => { const dob = new Date(date); return dob <= minBirthDate; }\<close>\<close>

definition dateOfBirth_refine :: "(string \<Rightarrow> int option) \<Rightarrow> zone \<Rightarrow> string \<Rightarrow> bool" where
  "dateOfBirth_refine fb z date = (let dob = Date_new fb date in date_le dob (minBirthDate fb z))"

section \<open>JavaScript values, thrown values and documents\<close>

text \<open>
  The documents handed to the remote stores are object literals. \<open>JObj\<close> lists the
  properties of an object in the order the literal writes them; \<open>JServerTimestamp\<close> is
  the sentinel that \<open>serverTimestamp()\<close> returns.
\<close>

datatype jsval =
    JUndefined
  | JNull
  | JBool bool
  | JStr string
  | JServerTimestamp
  | JArr "jsval list"
  | JObj "(string \<times> jsval) list"

text \<open>
  A thrown value (or the reason of a rejected promise) is an \<open>Error\<close> with its message,
  or any other value; \<open>err instanceof Error\<close> tells them apart.
\<close>

datatype thrown = Error string | NonError jsval

text \<open>The outcome of an awaited promise.\<close>

datatype 'a settled = Fulfilled 'a | Rejected thrown

text \<open>A text between single quotes, as messages print it.\<close>

definition quoted :: "string \<Rightarrow> string" where
  "quoted s = [CHR 0x27] @ s @ [CHR 0x27]"

text \<open>
  Reading a property: \<open>undefined\<close> when the object has none of that name, a
  \<open>TypeError\<close> on \<open>null\<close> and \<open>undefined\<close> (with the text of V8's message, as in
  \<^verbatim>\<open>Cannot read properties of null (reading 'id')\<close>).
\<close>

fun js_get :: "jsval \<Rightarrow> string \<Rightarrow> thrown + jsval" where
  "js_get (JObj kvs) k = Inr (case map_of kvs k of None \<Rightarrow> JUndefined | Some v \<Rightarrow> v)"
| "js_get JNull k =
     Inl (Error (''Cannot read properties of null (reading '' @ quoted k @ '')''))"
| "js_get JUndefined k =
     Inl (Error (''Cannot read properties of undefined (reading '' @ quoted k @ '')''))"
| "js_get v k = Inr JUndefined"

section \<open>The form data (\<open>ApplicationFormData\<close>)\<close>

text \<open>
  The types inferred from the schemas. A value of these types has every required field,
  with a value of the field's type; an optional field is an \<open>option\<close>. Two records may
  have a field of the same name (\<open>personalInfo.email\<close>, \<open>referee.email\<close>); the
  certificate's \<open>type\<close> is \<open>cert_type\<close>.
\<close>

datatype gender = Male | Female | Other

datatype educationLevel = EL_none | EL_primary | EL_js | EL_jsse | EL_ssce | EL_tertiary

datatype tertiaryEducation = TE_none | TE_certificate | TE_national_diploma | TE_degree | TE_other

datatype studyMode = Full_time | Part_time | Weekend

datatype sponsorshipType = Self | Organization | Guardian

record disability =
  hasDisability :: bool
  details :: "string option"

record personalInfo =
  firstName :: string
  lastName :: string
  email :: string
  phone :: string
  dateOfBirth :: string
  gender :: gender
  address :: string
  nationality :: string
  stateOfOrigin :: string
  religion :: "string option"
  disability :: disability

record certificate =
  cert_type :: string
  grade :: string
  year :: string

record academicBackground =
  educationLevel :: educationLevel
  tertiaryEducation :: "tertiaryEducation option"
  certificates :: "certificate list"

record programSelection =
  program :: string
  course :: string
  startDate :: string
  studyMode :: studyMode
  previousExperience :: "string option"
  careerGoals :: string

record sponsorDetails =
  name :: string
  relationship :: string
  contact :: string

record accommodation =
  needsAccommodation :: bool
  sponsorshipType :: sponsorshipType
  sponsorDetails :: sponsorDetails

record referee =
  name :: string
  email :: string
  phone :: string
  relationship :: string
  organization :: string
  position :: string

record formData =
  personalInfo :: personalInfo
  academicBackground :: academicBackground
  programSelection :: programSelection
  accommodation :: accommodation
  referee :: referee

section \<open>The form data as objects, results and notifications\<close>

definition opt_prop :: "string \<Rightarrow> ('a \<Rightarrow> jsval) \<Rightarrow> 'a option \<Rightarrow> (string \<times> jsval) list" where
  "opt_prop k f x = (case x of None \<Rightarrow> [] | Some v \<Rightarrow> [(k, f v)])"

definition nullable :: "string option \<Rightarrow> jsval" where
  "nullable x = (case x of None \<Rightarrow> JNull | Some s \<Rightarrow> JStr s)"

fun gender_str :: "gender \<Rightarrow> string" where
  "gender_str Male = ''male''"
| "gender_str Female = ''female''"
| "gender_str Other = ''other''"

fun educationLevel_str :: "educationLevel \<Rightarrow> string" where
  "educationLevel_str EL_none = ''none''"
| "educationLevel_str EL_primary = ''primary''"
| "educationLevel_str EL_js = ''js''"
| "educationLevel_str EL_jsse = ''jsse''"
| "educationLevel_str EL_ssce = ''ssce''"
| "educationLevel_str EL_tertiary = ''tertiary''"

fun tertiaryEducation_str :: "tertiaryEducation \<Rightarrow> string" where
  "tertiaryEducation_str TE_none = ''none''"
| "tertiaryEducation_str TE_certificate = ''certificate''"
| "tertiaryEducation_str TE_national_diploma = ''national_diploma''"
| "tertiaryEducation_str TE_degree = ''degree''"
| "tertiaryEducation_str TE_other = ''other''"

fun studyMode_str :: "studyMode \<Rightarrow> string" where
  "studyMode_str Full_time = ''full-time''"
| "studyMode_str Part_time = ''part-time''"
| "studyMode_str Weekend = ''weekend''"

fun sponsorshipType_str :: "sponsorshipType \<Rightarrow> string" where
  "sponsorshipType_str Self = ''self''"
| "sponsorshipType_str Organization = ''organization''"
| "sponsorshipType_str Guardian = ''guardian''"

text \<open>The sections of the form as the objects they are at run time.\<close>

definition personalInfo_obj :: "personalInfo \<Rightarrow> jsval" where
  "personalInfo_obj p =
     JObj ([(''firstName'', JStr (firstName p)),
            (''lastName'', JStr (lastName p)),
            (''email'', JStr (personalInfo.email p)),
            (''phone'', JStr (personalInfo.phone p)),
            (''dateOfBirth'', JStr (dateOfBirth p)),
            (''gender'', JStr (gender_str (gender p))),
            (''address'', JStr (address p)),
            (''nationality'', JStr (nationality p)),
            (''stateOfOrigin'', JStr (stateOfOrigin p))]
           @ opt_prop ''religion'' JStr (religion p)
           @ [(''disability'',
               JObj ((''hasDisability'', JBool (hasDisability (disability p)))
                     # opt_prop ''details'' JStr (details (disability p))))])"

definition certificate_obj :: "certificate \<Rightarrow> jsval" where
  "certificate_obj c =
     JObj [(''type'', JStr (cert_type c)), (''grade'', JStr (grade c)), (''year'', JStr (year c))]"

definition academicBackground_obj :: "academicBackground \<Rightarrow> jsval" where
  "academicBackground_obj a =
     JObj ((''educationLevel'', JStr (educationLevel_str (educationLevel a)))
           # opt_prop ''tertiaryEducation'' (\<lambda>t. JStr (tertiaryEducation_str t)) (tertiaryEducation a)
           @ [(''certificates'', JArr (map certificate_obj (certificates a)))])"

definition programSelection_obj :: "programSelection \<Rightarrow> jsval" where
  "programSelection_obj p =
     JObj ([(''program'', JStr (program p)),
            (''course'', JStr (course p)),
            (''startDate'', JStr (startDate p)),
            (''studyMode'', JStr (studyMode_str (studyMode p)))]
           @ opt_prop ''previousExperience'' JStr (previousExperience p)
           @ [(''careerGoals'', JStr (careerGoals p))])"

definition accommodation_obj :: "accommodation \<Rightarrow> jsval" where
  "accommodation_obj a =
     JObj [(''needsAccommodation'', JBool (needsAccommodation a)),
           (''sponsorshipType'', JStr (sponsorshipType_str (sponsorshipType a))),
           (''sponsorDetails'',
            JObj [(''name'', JStr (sponsorDetails.name (sponsorDetails a))),
                  (''relationship'', JStr (sponsorDetails.relationship (sponsorDetails a))),
                  (''contact'', JStr (contact (sponsorDetails a)))])]"

definition referee_obj :: "referee \<Rightarrow> jsval" where
  "referee_obj r =
     JObj [(''name'', JStr (referee.name r)),
           (''email'', JStr (referee.email r)),
           (''phone'', JStr (referee.phone r)),
           (''relationship'', JStr (referee.relationship r)),
           (''organization'', JStr (organization r)),
           (''position'', JStr (position r))]"

text \<open>The properties that the spread \<open>...formData\<close> copies.\<close>

definition formData_props :: "formData \<Rightarrow> (string \<times> jsval) list" where
  "formData_props d =
     [(''personalInfo'', personalInfo_obj (personalInfo d)),
      (''academicBackground'', academicBackground_obj (academicBackground d)),
      (''programSelection'', programSelection_obj (programSelection d)),
      (''accommodation'', accommodation_obj (accommodation d)),
      (''referee'', referee_obj (referee d))]"

text \<open>
  The result object of the submission operations: \<open>{success, message, applicationId?,
  error?}\<close>. The \<open>error\<close> property (only \<open>submitApplicationForm\<close> sets it) holds a text
  or the caught value.
\<close>

datatype error_prop = ErrText string | ErrCaught thrown

record result =
  success :: bool
  message :: string
  applicationId :: "jsval option"
  error :: "error_prop option"

datatype toast = ToastSuccess string | ToastError string

text \<open>
  \<open>new Date().toISOString()\<close> reads the clock; \<open>clock n\<close> is the text of the reading
  number \<open>n\<close> (from 0) within one call.
\<close>

type_synonym clock = "nat \<Rightarrow> string"

section \<open>The validation schemas\<close>

text \<open>
  An issue is a path and a message. The checks of a string schema map a string to the
  issues they raise: every check is run and adds its own issue, and a refinement that
  follows the checks is run too.

  zod's own pattern for \<open>.email()\<close> is not part of this repository: it is the parameter
  \<open>zemail\<close>.
\<close>

datatype path_elem = Key string | Idx nat

type_synonym issue = "path_elem list \<times> string"

definition chk_min :: "nat \<Rightarrow> string \<Rightarrow> string \<Rightarrow> issue list" where
  "chk_min n msg s = (if length s < n then [([], msg)] else [])"

definition chk_max :: "nat \<Rightarrow> string \<Rightarrow> string \<Rightarrow> issue list" where
  "chk_max n msg s = (if n < length s then [([], msg)] else [])"

definition chk_regex :: "rx_item list \<Rightarrow> string \<Rightarrow> string \<Rightarrow> issue list" where
  "chk_regex r msg s = (if regex_test r s then [] else [([], msg)])"

definition chk_refine :: "('a \<Rightarrow> bool) \<Rightarrow> string \<Rightarrow> 'a \<Rightarrow> issue list" where
  "chk_refine p msg x = (if p x then [] else [([], msg)])"

definition at_key :: "string \<Rightarrow> issue list \<Rightarrow> issue list" where
  "at_key k is = map (\<lambda>(p, m). (Key k # p, m)) is"

definition at_idx :: "nat \<Rightarrow> issue list \<Rightarrow> issue list" where
  "at_idx i is = map (\<lambda>(p, m). (Idx i # p, m)) is"

definition firstName_schema :: "string \<Rightarrow> issue list" where
  "firstName_schema s =
     chk_min 2 ''First name must be at least 2 characters'' s
     @ chk_max 50 ''First name must not exceed 50 characters'' s
     @ chk_regex name_regex ''First name can only contain letters and spaces'' s"

definition lastName_schema :: "string \<Rightarrow> issue list" where
  "lastName_schema s =
     chk_min 2 ''Last name must be at least 2 characters'' s
     @ chk_max 50 ''Last name must not exceed 50 characters'' s
     @ chk_regex name_regex ''Last name can only contain letters and spaces'' s"

definition dateOfBirth_schema :: "(string \<Rightarrow> int option) \<Rightarrow> zone \<Rightarrow> string \<Rightarrow> issue list" where
  "dateOfBirth_schema fb z s =
     chk_refine (dateOfBirth_refine fb z)
       ''You must be at least 18 years old by February 27, 2025'' s"

subsection \<open>Parsing a raw value\<close>

text \<open>
  The schemas are applied to what the form holds, which need not be of the inferred
  type: a field may be missing, of another type, or outside its enumeration. A parse
  gives a status and the issues raised. As in zod, a string whose checks fail is
  \<open>Dirty\<close>; a value of the wrong type, a missing required value and a value outside an
  enumeration are \<open>Aborted\<close>; an object or array is \<open>Aborted\<close> when one of its members is,
  after all members have been parsed and have reported their issues; and a refinement
  is run unless the parse it refines is \<open>Aborted\<close>. The values are those of \<open>jsval\<close>:
  the form holds no number. No schema of the source transforms its input, so the value
  that a parse hands to a refinement is the raw one, without the keys outside the shape.
\<close>

datatype status = Valid | Dirty | Aborted

type_synonym parsed = "status \<times> issue list"

type_synonym schema = "jsval \<Rightarrow> parsed"

fun parsed_type :: "jsval \<Rightarrow> string" where
  "parsed_type JUndefined = ''undefined''"
| "parsed_type JNull = ''null''"
| "parsed_type (JBool b) = ''boolean''"
| "parsed_type (JStr s) = ''string''"
| "parsed_type JServerTimestamp = ''object''"
| "parsed_type (JArr xs) = ''array''"
| "parsed_type (JObj kvs) = ''object''"

text \<open>The messages of zod's default error map.\<close>

definition invalid_type_message :: "string \<Rightarrow> jsval \<Rightarrow> string" where
  "invalid_type_message expected v =
     (if v = JUndefined then ''Required''
      else ''Expected '' @ expected @ '', received '' @ parsed_type v)"

fun join_values :: "string list \<Rightarrow> string" where
  "join_values [] = []"
| "join_values [x] = quoted x"
| "join_values (x # y # ys) = quoted x @ '' | '' @ join_values (y # ys)"

definition invalid_enum_message :: "string list \<Rightarrow> string \<Rightarrow> string" where
  "invalid_enum_message vals received =
     ''Invalid enum value. Expected '' @ join_values vals @ '', received '' @ quoted received"

definition check_status :: "issue list \<Rightarrow> status" where
  "check_status is = (if is = [] then Valid else Dirty)"

text \<open>\<open>z.string()\<close> followed by the checks and refinements \<open>checks\<close>.\<close>

definition z_string :: "(string \<Rightarrow> issue list) \<Rightarrow> schema" where
  "z_string checks v =
     (case v of
        JStr s \<Rightarrow> (check_status (checks s), checks s)
      | _ \<Rightarrow> (Aborted, [([], invalid_type_message ''string'' v)]))"

definition no_checks :: "string \<Rightarrow> issue list" where
  "no_checks s = []"

definition z_boolean :: schema where
  "z_boolean v =
     (case v of
        JBool b \<Rightarrow> (Valid, [])
      | _ \<Rightarrow> (Aborted, [([], invalid_type_message ''boolean'' v)]))"

text \<open>
  \<open>z.enum(vals, {errorMap})\<close>: \<open>custom\<close> is the message of the schema's own error map,
  which then replaces the default message of either issue.
\<close>

definition z_enum :: "string list \<Rightarrow> string option \<Rightarrow> schema" where
  "z_enum vals custom v =
     (case v of
        JStr s \<Rightarrow>
          (if s \<in> set vals then (Valid, [])
           else (Aborted,
                 [([], case custom of None \<Rightarrow> invalid_enum_message vals s | Some m \<Rightarrow> m)]))
      | _ \<Rightarrow>
          (Aborted,
           [([], case custom of None \<Rightarrow> invalid_type_message (join_values vals) v | Some m \<Rightarrow> m)]))"

definition z_optional :: "schema \<Rightarrow> schema" where
  "z_optional sch v = (if v = JUndefined then (Valid, []) else sch v)"

definition merge :: "status list \<Rightarrow> status" where
  "merge sts = (if Aborted \<in> set sts then Aborted else if Dirty \<in> set sts then Dirty else Valid)"

text \<open>\<open>data[key]\<close>.\<close>

definition member :: "(string \<times> jsval) list \<Rightarrow> string \<Rightarrow> jsval" where
  "member kvs k = (case map_of kvs k of None \<Rightarrow> JUndefined | Some v \<Rightarrow> v)"

text \<open>\<open>z.object(shape)\<close>; keys outside the shape are ignored.\<close>

definition z_object :: "(string \<times> schema) list \<Rightarrow> schema" where
  "z_object shape v =
     (case v of
        JObj kvs \<Rightarrow>
          (let rs = map (\<lambda>(k, sch). (k, sch (member kvs k))) shape
           in (merge (map (\<lambda>(k, r). fst r) rs), concat (map (\<lambda>(k, r). at_key k (snd r)) rs)))
      | _ \<Rightarrow> (Aborted, [([], invalid_type_message ''object'' v)]))"

definition z_array :: "schema \<Rightarrow> schema" where
  "z_array sch v =
     (case v of
        JArr xs \<Rightarrow>
          (let rs = map sch xs
           in (merge (map fst rs), concat (map (\<lambda>(i, r). at_idx i (snd r)) (enumerate 0 rs))))
      | _ \<Rightarrow> (Aborted, [([], invalid_type_message ''array'' v)]))"

text \<open>\<open>sch.refine(p, issue)\<close> on an object schema.\<close>

definition z_refine :: "(jsval \<Rightarrow> bool) \<Rightarrow> issue \<Rightarrow> schema \<Rightarrow> schema" where
  "z_refine p iss sch v =
     (case sch v of
        (st, is) \<Rightarrow>
          if st = Aborted then (Aborted, is)
          else if p v then (st, is)
          else (Dirty, is @ [iss]))"

text \<open>\<open>safeParse(v).success\<close>.\<close>

definition safeParse_success :: "parsed \<Rightarrow> bool" where
  "safeParse_success r = (fst r = Valid)"

subsection \<open>The schemas of the source\<close>

definition personalInfoSchema :: "(string \<Rightarrow> bool) \<Rightarrow> (string \<Rightarrow> int option) \<Rightarrow> zone \<Rightarrow> schema" where
  "personalInfoSchema zemail fb z =
     z_object
       [(''firstName'', z_string firstName_schema),
        (''lastName'', z_string lastName_schema),
        (''email'', z_string (chk_refine zemail ''Invalid email address'')),
        (''phone'',
         z_string (chk_regex phone_regex ''Please enter a valid phone number (e.g., +234...)'')),
        (''dateOfBirth'', z_string (dateOfBirth_schema fb z)),
        (''gender'', z_enum [''male'', ''female'', ''other''] (Some ''Please select your gender'')),
        (''address'',
         z_string (\<lambda>s. chk_min 10 ''Please provide a complete address'' s
                       @ chk_max 200 ''Address is too long'' s)),
        (''nationality'', z_string (chk_min 2 ''Please specify your nationality'')),
        (''stateOfOrigin'', z_string (chk_min 2 ''Please specify your state of origin'')),
        (''religion'', z_optional (z_string no_checks)),
        (''disability'',
         z_object [(''hasDisability'', z_boolean), (''details'', z_optional (z_string no_checks))])]"

definition certificate_schema :: schema where
  "certificate_schema =
     z_object
       [(''type'', z_string (chk_min 2 ''Certificate type is required'')),
        (''grade'', z_string (chk_min 1 ''Grade is required'')),
        (''year'', z_string (chk_regex year_regex ''Please enter a valid year''))]"

definition academicBackgroundSchema :: schema where
  "academicBackgroundSchema =
     z_object
       [(''educationLevel'',
         z_enum [''none'', ''primary'', ''js'', ''jsse'', ''ssce'', ''tertiary'']
           (Some ''Please select your education level'')),
        (''tertiaryEducation'',
         z_optional
           (z_enum [''none'', ''certificate'', ''national_diploma'', ''degree'', ''other''] None)),
        (''certificates'', z_array certificate_schema)]"

definition programSelectionSchema :: schema where
  "programSelectionSchema =
     z_object
       [(''program'', z_string (chk_min 1 ''Please select a program'')),
        (''course'', z_string (chk_min 1 ''Please select a course'')),
        (''startDate'', z_string (chk_min 1 ''Please select a start date'')),
        (''studyMode'',
         z_enum [''full-time'', ''part-time'', ''weekend''] (Some ''Please select a study mode'')),
        (''previousExperience'', z_optional (z_string no_checks)),
        (''careerGoals'',
         z_string (\<lambda>s. chk_min 10 ''Please describe your career goals'' s
                       @ chk_max 500 ''Career goals must not exceed 500 characters'' s))]"

definition accommodationSchema :: schema where
  "accommodationSchema =
     z_object
       [(''needsAccommodation'', z_boolean),
        (''sponsorshipType'',
         z_enum [''self'', ''organization'', ''guardian''] (Some ''Please select a sponsorship type'')),
        (''sponsorDetails'',
         z_object
           [(''name'', z_string (chk_min 2 ''Sponsor name is required'')),
            (''relationship'', z_string (chk_min 2 ''Please specify the relationship'')),
            (''contact'', z_string (chk_min 5 ''Please provide contact information''))])]"

definition referee_email_checks :: "(string \<Rightarrow> bool) \<Rightarrow> string \<Rightarrow> issue list" where
  "referee_email_checks zemail s =
     chk_refine zemail ''Invalid email address'' s
     @ chk_refine (\<lambda>e. e \<noteq> []) ''Referee email is required'' s"

definition refereeSchema :: "(string \<Rightarrow> bool) \<Rightarrow> schema" where
  "refereeSchema zemail =
     z_object
       [(''name'',
         z_string (\<lambda>s. chk_min 2 ''Referee name is required'' s
                       @ chk_max 100 ''Referee name is too long'' s)),
        (''email'', z_string (referee_email_checks zemail)),
        (''phone'', z_string (chk_regex phone_regex ''Please enter a valid phone number'')),
        (''relationship'', z_string (chk_min 2 ''Please specify the relationship'')),
        (''organization'', z_string (chk_min 2 ''Organization name is required'')),
        (''position'', z_string (chk_min 2 ''Position is required''))]"

text \<open>The object of the five sections, which the aggregate refines.\<close>

definition sectionsSchema :: "(string \<Rightarrow> bool) \<Rightarrow> (string \<Rightarrow> int option) \<Rightarrow> zone \<Rightarrow> schema" where
  "sectionsSchema zemail fb z =
     z_object
       [(''personalInfo'', personalInfoSchema zemail fb z),
        (''academicBackground'', academicBackgroundSchema),
        (''programSelection'', programSelectionSchema),
        (''accommodation'', accommodationSchema),
        (''referee'', refereeSchema zemail)]"

text \<open>
  The refinement of the aggregate:
  \<^verbatim>\<open>.refine(data => data.referee.email !== data.personalInfo.email,\<close>
  \<^verbatim>\<open>  { message: "Referee's email must be different from your email", path: ['referee', 'email'] })\<close>
  \<open>email_of v k\<close> is \<open>v[k].email\<close>. The refinement is run only on a parse that is
  not \<open>Aborted\<close>, where both sections are objects and both emails are strings.
\<close>

definition email_of :: "jsval \<Rightarrow> string \<Rightarrow> jsval" where
  "email_of v k =
     (case v of
        JObj kvs \<Rightarrow> (case member kvs k of JObj fs \<Rightarrow> member fs ''email'' | _ \<Rightarrow> JUndefined)
      | _ \<Rightarrow> JUndefined)"

definition emails_differ :: "jsval \<Rightarrow> bool" where
  "emails_differ v = (email_of v ''referee'' \<noteq> email_of v ''personalInfo'')"

definition cross_field_issue :: issue where
  "cross_field_issue =
     ([Key ''referee'', Key ''email''], ''Referee's email must be different from your email'')"

definition applicationSchema :: "(string \<Rightarrow> bool) \<Rightarrow> (string \<Rightarrow> int option) \<Rightarrow> zone \<Rightarrow> schema" where
  "applicationSchema zemail fb z = z_refine emails_differ cross_field_issue (sectionsSchema zemail fb z)"

section \<open>The Firebase path: \<open>useApplicationSubmit\<close>\<close>

text \<open>
  The user of \<open>useAuth()\<close>. \<open>fs_call\<close> is a remote insert: \<open>addDoc(collection(db, path),
  data)\<close>; awaiting it gives the id of the new document, or a rejection.
\<close>

record fb_user =
  uid :: string
  email :: "string option"
  displayName :: "string option"

datatype fs_call = AddDoc string jsval

text \<open>
  The state of the hook (\<open>isSubmitting\<close>, \<open>error\<close>) and what it has done so far: the
  notifications shown and the remote inserts issued, oldest first.
\<close>

record hook =
  isSubmitting :: bool
  error :: "thrown option"
  toasts :: "toast list"
  requests :: "fs_call list"

definition applicationData :: "fb_user \<Rightarrow> clock \<Rightarrow> formData \<Rightarrow> jsval" where
  "applicationData u clock fd =
     JObj (formData_props fd
           @ [(''userId'', JStr (uid u)),
              (''status'', JStr ''pending''),
              (''submittedAt'', JServerTimestamp),
              (''metadata'',
               JObj [(''userEmail'', nullable (fb_user.email u)),
                     (''userName'', nullable (displayName u)),
                     (''submissionDate'', JStr (clock 0)),
                     (''lastModified'', JStr (clock 1))])])"

definition link_doc :: "formData \<Rightarrow> string \<Rightarrow> jsval" where
  "link_doc fd docId =
     JObj [(''applicationId'', JStr docId),
           (''programId'', JStr (program (programSelection fd))),
           (''courseId'', JStr (course (programSelection fd))),
           (''status'', JStr ''pending''),
           (''submittedAt'', JServerTimestamp)]"

text \<open>
  \<open>handleSubmit\<close> runs in three stretches, cut at its two \<open>await\<close>s.

  The first stretch (lines 22 to 46) throws when there is no user. The \<open>throw\<close> stands
  before the \<open>try\<close>, so the promise that \<open>handleSubmit\<close> returns is rejected: \<open>Inl\<close>.
  Otherwise it sets the state and issues the insert into \<open>applications\<close>.
\<close>

definition handleSubmit_begin ::
  "fb_user option \<Rightarrow> clock \<Rightarrow> formData \<Rightarrow> hook
     \<Rightarrow> thrown + (fb_user \<times> fs_call \<times> hook)" where
  "handleSubmit_begin user clock fd h =
     (case user of
        None \<Rightarrow> Inl (Error ''You must be signed in to submit an application'')
      | Some u \<Rightarrow>
          Inr (u, AddDoc ''applications'' (applicationData u clock fd),
               h\<lparr>isSubmitting := True, hook.error := None\<rparr>))"

text \<open>The \<open>catch\<close> block, followed by \<open>finally\<close>.\<close>

definition handleSubmit_catch :: "thrown \<Rightarrow> hook \<Rightarrow> result \<times> hook" where
  "handleSubmit_catch err h =
     (let errorMessage = (case err of Error m \<Rightarrow> m | NonError v \<Rightarrow> ''Failed to submit application'')
      in (\<lparr>success = False, message = errorMessage, applicationId = None, error = None\<rparr>,
          h\<lparr>toasts := toasts h @ [ToastError errorMessage],
            hook.error := Some (case err of Error m \<Rightarrow> err | NonError v \<Rightarrow> Error errorMessage),
            isSubmitting := False\<rparr>))"

text \<open>
  The second stretch (lines 46 to 50), entered when the first insert settles: on
  success it issues the insert of the link document into \<open>users/<uid>/applications\<close>
  and waits again (\<open>Inl\<close>, with the id of the application document).
\<close>

definition handleSubmit_after_application ::
  "fb_user \<Rightarrow> formData \<Rightarrow> string settled \<Rightarrow> hook \<Rightarrow> (fs_call \<times> string \<times> hook) + (result \<times> hook)" where
  "handleSubmit_after_application u fd r h =
     (case r of
        Rejected err \<Rightarrow> Inr (handleSubmit_catch err h)
      | Fulfilled docId \<Rightarrow>
          Inl (AddDoc (''users/'' @ uid u @ ''/applications'') (link_doc fd docId), docId, h))"

text \<open>The third stretch (lines 50 to 86), entered when the second insert settles.\<close>

definition handleSubmit_after_link :: "string \<Rightarrow> string settled \<Rightarrow> hook \<Rightarrow> result \<times> hook" where
  "handleSubmit_after_link docId r h =
     (case r of
        Rejected err \<Rightarrow> handleSubmit_catch err h
      | Fulfilled linkId \<Rightarrow>
          (\<lparr>success = True, message = ''Application submitted successfully'',
            applicationId = Some (JStr docId), error = None\<rparr>,
           h\<lparr>toasts := toasts h @ [ToastSuccess ''Application submitted successfully!''],
             isSubmitting := False\<rparr>))"

definition issue_request :: "fs_call \<Rightarrow> hook \<Rightarrow> hook" where
  "issue_request c h = h\<lparr>requests := requests h @ [c]\<rparr>"

text \<open>
  One whole call of \<open>handleSubmit\<close> against a Firestore backend: \<open>exec\<close> answers each
  insert and moves the backend's state \<open>w\<close>. The value is the rejection (\<open>Inl\<close>) or the
  result object (\<open>Inr\<close>), with the hook and the backend after the call.
\<close>

definition handleSubmit ::
  "(fs_call \<Rightarrow> 'w \<Rightarrow> string settled \<times> 'w) \<Rightarrow> fb_user option \<Rightarrow> clock \<Rightarrow> formData
     \<Rightarrow> hook \<Rightarrow> 'w \<Rightarrow> (thrown + result) \<times> hook \<times> 'w" where
  "handleSubmit exec user clock fd h w =
     (case handleSubmit_begin user clock fd h of
        Inl err \<Rightarrow> (Inl err, h, w)
      | Inr (u, c1, h1) \<Rightarrow>
          (let (r1, w1) = exec c1 w in
           case handleSubmit_after_application u fd r1 (issue_request c1 h1) of
             Inr (res, h2) \<Rightarrow> (Inr res, h2, w1)
           | Inl (c2, docId, h2) \<Rightarrow>
               (let (r2, w2) = exec c2 w1;
                    (res, h3) = handleSubmit_after_link docId r2 (issue_request c2 h2)
                in (Inr res, h3, w2))))"

text \<open>\<open>resetForm\<close>.\<close>

definition resetForm :: "hook \<Rightarrow> hook" where
  "resetForm h = h\<lparr>hook.error := None, isSubmitting := False\<rparr>"

subsection \<open>The form instance as a state machine\<close>

text \<open>
  Calls of \<open>handleSubmit\<close> interleave at their \<open>await\<close>s. A form instance is the hook
  and the calls that are suspended, each waiting for one remote insert to settle. An
  event is a submit request (with the user of the current render), the settling of the
  insert that the suspended call number \<open>i\<close> waits for, or \<open>resetForm\<close>.
\<close>

datatype pending = AwaitApplication fb_user formData | AwaitLink string

datatype event = Submit "fb_user option" formData | Settle nat "string settled" | ResetForm

type_synonym form_instance = "hook \<times> pending list"

definition idle :: form_instance where
  "idle = (\<lparr>isSubmitting = False, error = None, toasts = [], requests = []\<rparr>, [])"

definition remove_nth :: "nat \<Rightarrow> 'a list \<Rightarrow> 'a list" where
  "remove_nth i xs = take i xs @ drop (Suc i) xs"

fun step :: "clock \<Rightarrow> form_instance \<Rightarrow> event \<Rightarrow> form_instance" where
  "step clock (h, ps) (Submit user fd) =
     (case handleSubmit_begin user clock fd h of
        Inl err \<Rightarrow> (h, ps)
      | Inr (u, c, h1) \<Rightarrow> (issue_request c h1, ps @ [AwaitApplication u fd]))"
| "step clock (h, ps) (Settle i r) =
     (if i < length ps then
        (case ps ! i of
           AwaitApplication u fd \<Rightarrow>
             (case handleSubmit_after_application u fd r h of
                Inl (c, docId, h1) \<Rightarrow> (issue_request c h1, ps[i := AwaitLink docId])
              | Inr (res, h1) \<Rightarrow> (h1, remove_nth i ps))
         | AwaitLink docId \<Rightarrow>
             (case handleSubmit_after_link docId r h of (res, h1) \<Rightarrow> (h1, remove_nth i ps)))
      else (h, ps))"
| "step clock (h, ps) ResetForm = (resetForm h, ps)"

definition run :: "clock \<Rightarrow> form_instance \<Rightarrow> event list \<Rightarrow> form_instance" where
  "run clock s evs = foldl (step clock) s evs"

text \<open>The number of remote inserts in flight: every suspended call waits for one.\<close>

definition in_flight :: "form_instance \<Rightarrow> nat" where
  "in_flight s = length (snd s)"

text \<open>
  The caller's side of the contract: the submit trigger is disabled while
  \<open>isSubmitting\<close> is set, and the form is not reset during a submission.
  \<open>run_guarded\<close> is \<open>run\<close> for such a caller; it is \<open>None\<close> when an event breaks the
  contract.
\<close>

fun allowed :: "form_instance \<Rightarrow> event \<Rightarrow> bool" where
  "allowed (h, ps) (Submit user fd) = (\<not> isSubmitting h)"
| "allowed (h, ps) (Settle i r) = True"
| "allowed (h, ps) ResetForm = (ps = [])"

fun run_guarded :: "clock \<Rightarrow> form_instance \<Rightarrow> event list \<Rightarrow> form_instance option" where
  "run_guarded clock s [] = Some s"
| "run_guarded clock s (ev # evs) =
     (if allowed s ev then run_guarded clock (step clock s ev) evs else None)"

section \<open>The Supabase path\<close>

text \<open>
  \<open>sb_call\<close> is one query sent to the remote store, with its table:
  \<^item> \<open>Insert t row\<close> is \<open>.from(t).insert(row).select('id').single()\<close>;
  \<^item> \<open>Update t patch filters\<close> is \<open>.from(t).update(patch).eq(..)....select('id').single()\<close>,
    one filter for each \<open>.eq(column, value)\<close>, in the order written;
  \<^item> \<open>Select t filters order\<close> is \<open>.from(t).select('*').eq(..).order(column, {ascending})\<close>;
  \<^item> \<open>SelectSingle t filters\<close> is \<open>.from(t).select('*').eq(..).eq(..).single()\<close>.

  Awaiting a query gives \<open>{data, error}\<close>: \<open>SbError code message\<close> when \<open>error\<close> is set,
  \<open>SbData data\<close> otherwise; or the client throws (\<open>Rejected\<close>).
\<close>

datatype sb_call =
    Insert string jsval
  | Update string jsval "(string \<times> string) list"
  | Select string "(string \<times> string) list" "(string \<times> bool) option"
  | SelectSingle string "(string \<times> string) list"

datatype sb_reply = SbData jsval | SbError string string

text \<open>The user of \<open>supabase.auth.getUser()\<close>; \<open>user_id\<close> is \<open>user.id\<close>.\<close>

record sb_user =
  user_id :: string

text \<open>
  The world of the Supabase functions: the state \<open>store\<close> of the remote store, the
  queries sent so far and the notifications shown, oldest first. \<open>exec\<close> is the remote
  store: it answers a query and moves its state. The functions below other than
  \<open>submitApplicationForm\<close> use the client \<open>supabase\<close> of their module and not their
  parameter \<open>supabaseClient\<close>; \<open>exec\<close> and \<open>auth\<close> stand for that client.
\<close>

record 'w world =
  store :: 'w
  sb_requests :: "sb_call list"
  sb_toasts :: "toast list"

type_synonym 'w remote = "sb_call \<Rightarrow> 'w \<Rightarrow> sb_reply settled \<times> 'w"

definition send :: "'w remote \<Rightarrow> sb_call \<Rightarrow> 'w world \<Rightarrow> sb_reply settled \<times> 'w world" where
  "send exec c W =
     (let (r, w') = exec c (store W)
      in (r, W\<lparr>store := w', sb_requests := sb_requests W @ [c]\<rparr>))"

subsection \<open>\<open>submitApplicationForm\<close>\<close>

definition validation_error :: "string \<Rightarrow> result" where
  "validation_error msg =
     \<lparr>success = False, message = msg, applicationId = None, error = Some (ErrText ''Validation Error'')\<rparr>"

text \<open>The checks of lines 36 to 62; \<open>!s\<close> on a string is true for the empty string.\<close>

definition submitApplicationForm_checks :: "personalInfo \<Rightarrow> result option" where
  "submitApplicationForm_checks p =
     (if firstName p = [] \<or> lastName p = [] \<or> personalInfo.email p = [] \<or> personalInfo.phone p = []
      then Some (validation_error ''Missing required fields in personal information.'')
      else if \<not> regex_test emailRegex (personalInfo.email p)
      then Some (validation_error ''Invalid email format.'')
      else if \<not> regex_test phoneRegex (personalInfo.phone p)
      then Some (validation_error ''Invalid phone number format.'')
      else None)"

definition sanitizedPersonalInfo :: "personalInfo \<Rightarrow> jsval" where
  "sanitizedPersonalInfo p =
     JObj [(''firstName'', JStr (trim (firstName p))),
           (''lastName'', JStr (trim (lastName p))),
           (''email'', JStr (toLowerCase (trim (personalInfo.email p)))),
           (''phone'', JStr (trim (personalInfo.phone p)))]"

definition submitApplicationForm_doc :: "formData \<Rightarrow> jsval" where
  "submitApplicationForm_doc fd =
     JObj (formData_props fd
           @ [(''personal_info'', sanitizedPersonalInfo (personalInfo fd)),
              (''status'', JStr ''pending'')])"

text \<open>The \<open>catch\<close> block of \<open>submitApplicationForm\<close>.\<close>

definition unexpected_error :: "thrown \<Rightarrow> result" where
  "unexpected_error err =
     \<lparr>success = False,
      message = ''Unexpected error: ''
                @ (case err of Error m \<Rightarrow> m | NonError v \<Rightarrow> ''An unknown error occurred.''),
      applicationId = None, error = Some (ErrCaught err)\<rparr>"

definition submitApplicationForm :: "'w remote \<Rightarrow> formData \<Rightarrow> 'w world \<Rightarrow> result \<times> 'w world" where
  "submitApplicationForm exec fd W =
     (case submitApplicationForm_checks (personalInfo fd) of
        Some failure \<Rightarrow> (failure, W)
      | None \<Rightarrow>
          (let (r, W1) = send exec (Insert ''applications'' (submitApplicationForm_doc fd)) W in
           case r of
             Rejected err \<Rightarrow> (unexpected_error err, W1)
           | Fulfilled (SbError code msg) \<Rightarrow>
               (if code = ''23505''
                then (\<lparr>success = False, message = ''Duplicate submission detected.'',
                       applicationId = None, error = Some (ErrText msg)\<rparr>, W1)
                else (\<lparr>success = False, message = ''Supabase error: '' @ msg,
                       applicationId = None, error = Some (ErrText msg)\<rparr>, W1))
           | Fulfilled (SbData d) \<Rightarrow>
               (case js_get d ''id'' of
                  Inl err \<Rightarrow> (unexpected_error err, W1)
                | Inr v \<Rightarrow>
                    (\<lparr>success = True, message = ''Application submitted successfully!'',
                      applicationId = Some v, error = None\<rparr>, W1))))"

subsection \<open>\<open>submitApplication\<close>\<close>

definition submitApplication_data :: "sb_user \<Rightarrow> clock \<Rightarrow> formData \<Rightarrow> jsval" where
  "submitApplication_data u clock fd =
     JObj [(''user_id'', JStr (user_id u)),
           (''personal_info'', personalInfo_obj (personalInfo fd)),
           (''academic_background'', academicBackground_obj (academicBackground fd)),
           (''program_selection'', programSelection_obj (programSelection fd)),
           (''accommodation'', accommodation_obj (accommodation fd)),
           (''referee'', referee_obj (referee fd)),
           (''status'', JStr ''pending''),
           (''created_at'', JStr (clock 0)),
           (''updated_at'', JStr (clock 1))]"

text \<open>The \<open>catch\<close> block of \<open>submitApplication\<close>.\<close>

definition submitApplication_catch :: "thrown \<Rightarrow> 'w world \<Rightarrow> result \<times> 'w world" where
  "submitApplication_catch err W =
     (let msg = (case err of Error m \<Rightarrow> m | NonError v \<Rightarrow> ''Failed to submit application'')
      in (\<lparr>success = False, message = msg, applicationId = None, error = None\<rparr>,
          W\<lparr>sb_toasts := sb_toasts W @ [ToastError msg]\<rparr>))"

definition submitApplication ::
  "'w remote \<Rightarrow> sb_user option settled \<Rightarrow> clock \<Rightarrow> formData \<Rightarrow> 'w world \<Rightarrow> result \<times> 'w world" where
  "submitApplication exec auth clock fd W =
     (case auth of
        Rejected err \<Rightarrow> submitApplication_catch err W
      | Fulfilled None \<Rightarrow>
          submitApplication_catch (Error ''You must be signed in to submit an application'') W
      | Fulfilled (Some u) \<Rightarrow>
          (let (r, W1) = send exec (Insert ''applications'' (submitApplication_data u clock fd)) W in
           case r of
             Rejected err \<Rightarrow> submitApplication_catch err W1
           | Fulfilled (SbError code msg) \<Rightarrow> submitApplication_catch (Error msg) W1
           | Fulfilled (SbData d) \<Rightarrow>
               (let W2 = W1\<lparr>sb_toasts := sb_toasts W1 @ [ToastSuccess ''Application submitted successfully!'']\<rparr>
                in case js_get d ''id'' of
                     Inl err \<Rightarrow> submitApplication_catch err W2
                   | Inr v \<Rightarrow>
                       (\<lparr>success = True, message = ''Application submitted successfully'',
                         applicationId = Some v, error = None\<rparr>, W2))))"

subsection \<open>\<open>saveDraft\<close>\<close>

text \<open>\<open>Partial<ApplicationFormData>\<close>: each section may be missing.\<close>

record partialFormData =
  personalInfo :: "personalInfo option"
  academicBackground :: "academicBackground option"
  programSelection :: "programSelection option"
  accommodation :: "accommodation option"
  referee :: "referee option"

record draftResult =
  success :: bool
  draftId :: jsval

text \<open>\<open>section || {}\<close>: an object is truthy, a missing section is not.\<close>

definition or_empty :: "('a \<Rightarrow> jsval) \<Rightarrow> 'a option \<Rightarrow> jsval" where
  "or_empty f x = (case x of None \<Rightarrow> JObj [] | Some v \<Rightarrow> f v)"

definition draftData :: "sb_user \<Rightarrow> clock \<Rightarrow> partialFormData \<Rightarrow> (string \<times> jsval) list" where
  "draftData u clock fd =
     [(''user_id'', JStr (user_id u)),
      (''personal_info'', or_empty personalInfo_obj (partialFormData.personalInfo fd)),
      (''academic_background'', or_empty academicBackground_obj (partialFormData.academicBackground fd)),
      (''program_selection'', or_empty programSelection_obj (partialFormData.programSelection fd)),
      (''accommodation'', or_empty accommodation_obj (partialFormData.accommodation fd)),
      (''referee'', or_empty referee_obj (partialFormData.referee fd)),
      (''status'', JStr ''draft''),
      (''updated_at'', JStr (clock 0))]"

text \<open>
  \<open>if (draftId)\<close>: a missing \<open>draftId\<close> and the empty string take the \<open>else\<close> branch,
  which adds \<open>created_at\<close> and inserts.
\<close>

definition given :: "string option \<Rightarrow> bool" where
  "given draft_id = (case draft_id of None \<Rightarrow> False | Some d \<Rightarrow> d \<noteq> [])"

definition draft_insert :: "sb_user \<Rightarrow> clock \<Rightarrow> partialFormData \<Rightarrow> sb_call" where
  "draft_insert u clock fd =
     Insert ''applications'' (JObj (draftData u clock fd @ [(''created_at'', JStr (clock 1))]))"

definition draft_update :: "sb_user \<Rightarrow> clock \<Rightarrow> partialFormData \<Rightarrow> string \<Rightarrow> sb_call" where
  "draft_update u clock fd d =
     Update ''applications'' (JObj (draftData u clock fd)) [(''id'', d), (''user_id'', user_id u)]"

definition draft_call :: "sb_user \<Rightarrow> clock \<Rightarrow> partialFormData \<Rightarrow> string option \<Rightarrow> sb_call" where
  "draft_call u clock fd draft_id =
     (case draft_id of
        None \<Rightarrow> draft_insert u clock fd
      | Some d \<Rightarrow> if d \<noteq> [] then draft_update u clock fd d else draft_insert u clock fd)"

text \<open>
  The tail shared by \<open>saveDraft\<close>, \<open>getUserApplications\<close> and \<open>getApplicationById\<close>:
  \<open>if (error) throw new Error(error.message)\<close>, and a \<open>catch\<close> that throws again.
\<close>

definition data_or_throw :: "sb_reply settled \<Rightarrow> thrown + jsval" where
  "data_or_throw r =
     (case r of
        Rejected err \<Rightarrow> Inl err
      | Fulfilled (SbError code msg) \<Rightarrow> Inl (Error msg)
      | Fulfilled (SbData d) \<Rightarrow> Inr d)"

definition saveDraft ::
  "'w remote \<Rightarrow> sb_user option settled \<Rightarrow> clock \<Rightarrow> partialFormData \<Rightarrow> string option \<Rightarrow> 'w world
     \<Rightarrow> (thrown + draftResult) \<times> 'w world" where
  "saveDraft exec auth clock fd draft_id W =
     (case auth of
        Rejected err \<Rightarrow> (Inl err, W)
      | Fulfilled None \<Rightarrow> (Inl (Error ''You must be signed in to save a draft''), W)
      | Fulfilled (Some u) \<Rightarrow>
          (let (r, W1) = send exec (draft_call u clock fd draft_id) W in
           case data_or_throw r of
             Inl err \<Rightarrow> (Inl err, W1)
           | Inr d \<Rightarrow>
               (case js_get d ''id'' of
                  Inl err \<Rightarrow> (Inl err, W1)
                | Inr v \<Rightarrow> (Inr \<lparr>success = True, draftId = v\<rparr>, W1))))"

subsection \<open>\<open>getUserApplications\<close> and \<open>getApplicationById\<close>\<close>

definition getUserApplications ::
  "'w remote \<Rightarrow> sb_user option settled \<Rightarrow> 'w world \<Rightarrow> (thrown + jsval) \<times> 'w world" where
  "getUserApplications exec auth W =
     (case auth of
        Rejected err \<Rightarrow> (Inl err, W)
      | Fulfilled None \<Rightarrow> (Inl (Error ''You must be signed in to view applications''), W)
      | Fulfilled (Some u) \<Rightarrow>
          (let (r, W1) =
                 send exec (Select ''applications'' [(''user_id'', user_id u)]
                              (Some (''created_at'', False))) W
           in (data_or_throw r, W1)))"

definition getApplicationById ::
  "'w remote \<Rightarrow> sb_user option settled \<Rightarrow> string \<Rightarrow> 'w world \<Rightarrow> (thrown + jsval) \<times> 'w world" where
  "getApplicationById exec auth application_id W =
     (case auth of
        Rejected err \<Rightarrow> (Inl err, W)
      | Fulfilled None \<Rightarrow> (Inl (Error ''You must be signed in to view applications''), W)
      | Fulfilled (Some u) \<Rightarrow>
          (let (r, W1) =
                 send exec (SelectSingle ''applications''
                              [(''id'', application_id), (''user_id'', user_id u)]) W
           in (data_or_throw r, W1)))"

subsection \<open>A remote table\<close>

text \<open>
  What the queries mean on the store's side, for the statements about the records an
  operation can reach. The store holds the one table \<open>applications\<close>, a list of rows
  (objects with an \<open>id\<close> and a \<open>user_id\<close> column among others). A filter
  \<open>.eq(column, value)\<close> keeps the rows whose column holds that text; \<open>.single()\<close>
  answers with an error unless exactly one row is left, and an update that does not hit
  exactly one row changes nothing. An insert appends the row under an id that the store
  mints.
\<close>

record table =
  rows :: "jsval list"
  minted :: nat
  mint :: "nat \<Rightarrow> string"

definition row_matches :: "(string \<times> string) list \<Rightarrow> jsval \<Rightarrow> bool" where
  "row_matches filters row = list_all (\<lambda>(k, v). js_get row k = Inr (JStr v)) filters"

definition assign :: "jsval \<Rightarrow> jsval \<Rightarrow> jsval" where
  "assign patch row =
     (case row of
        JObj kvs \<Rightarrow>
          (case patch of
             JObj ps \<Rightarrow> JObj (foldl (\<lambda>acc (k, v). AList.update k v acc) kvs ps)
           | _ \<Rightarrow> row)
      | _ \<Rightarrow> row)"

definition sort_text :: "string \<Rightarrow> jsval \<Rightarrow> string" where
  "sort_text col row = (case js_get row col of Inr (JStr s) \<Rightarrow> s | _ \<Rightarrow> [])"

definition ordered :: "(string \<times> bool) option \<Rightarrow> jsval list \<Rightarrow> jsval list" where
  "ordered ord rs =
     (case ord of
        None \<Rightarrow> rs
      | Some (col, ascending) \<Rightarrow>
          (if ascending then sort_key (sort_text col) rs else rev (sort_key (sort_text col) rs)))"

definition id_of :: "jsval \<Rightarrow> jsval" where
  "id_of row = (case js_get row ''id'' of Inr v \<Rightarrow> v | Inl err \<Rightarrow> JUndefined)"

definition not_single :: sb_reply where
  "not_single = SbError ''PGRST116'' ''JSON object requested, multiple (or no) rows returned''"

fun table_exec :: "table remote" where
  "table_exec (Insert t row) T =
     (case row of
        JObj kvs \<Rightarrow>
          (let new_id = JStr (mint T (minted T))
           in (Fulfilled (SbData (JObj [(''id'', new_id)])),
               T\<lparr>rows := rows T @ [JObj ((''id'', new_id) # kvs)], minted := Suc (minted T)\<rparr>))
      | _ \<Rightarrow> (Fulfilled (SbError ''PGRST102'' ''Invalid request body''), T))"
| "table_exec (Update t patch filters) T =
     (case filter (row_matches filters) (rows T) of
        [r] \<Rightarrow>
          (Fulfilled (SbData (JObj [(''id'', id_of r)])),
           T\<lparr>rows := map (\<lambda>x. if row_matches filters x then assign patch x else x) (rows T)\<rparr>)
      | _ \<Rightarrow> (Fulfilled not_single, T))"
| "table_exec (Select t filters ord) T =
     (Fulfilled (SbData (JArr (ordered ord (filter (row_matches filters) (rows T))))), T)"
| "table_exec (SelectSingle t filters) T =
     (case filter (row_matches filters) (rows T) of
        [r] \<Rightarrow> (Fulfilled (SbData r), T)
      | _ \<Rightarrow> (Fulfilled not_single, T))"

section \<open>Sample inputs\<close>

text \<open>A complete form, users, a clock, backends and a table, for the concrete runs below.\<close>

definition sample_personalInfo :: personalInfo where
  "sample_personalInfo =
     \<lparr>firstName = ''  Ada '', lastName = ''Obi'', personalInfo.email = ''Ada.Obi@Example.COM'',
      personalInfo.phone = ''+2348012345678'', dateOfBirth = ''2000-01-31'', gender = Female,
      address = ''12 Marina Road, Lagos'', nationality = ''Nigerian'', stateOfOrigin = ''Lagos'',
      religion = None, disability = \<lparr>hasDisability = False, details = None\<rparr>\<rparr>"

definition sample_referee :: referee where
  "sample_referee =
     \<lparr>referee.name = ''Bola Ade'', referee.email = ''bola@example.com'',
      referee.phone = ''+2348098765432'', referee.relationship = ''Teacher'',
      organization = ''Unity College'', position = ''Principal''\<rparr>"

definition sample_form :: formData where
  "sample_form =
     \<lparr>formData.personalInfo = sample_personalInfo,
      formData.academicBackground =
        \<lparr>educationLevel = EL_ssce, tertiaryEducation = None,
         certificates = [\<lparr>cert_type = ''WAEC'', grade = ''B2'', year = ''2018''\<rparr>]\<rparr>,
      formData.programSelection =
        \<lparr>program = ''software'', course = ''web-dev'', startDate = ''2025-09-01'',
         studyMode = Full_time, previousExperience = None,
         careerGoals = ''Become a web developer''\<rparr>,
      formData.accommodation =
        \<lparr>needsAccommodation = False, sponsorshipType = Self,
         sponsorDetails =
           \<lparr>sponsorDetails.name = ''Ada Obi'', sponsorDetails.relationship = ''Self'',
            contact = ''+2348012345678''\<rparr>\<rparr>,
      formData.referee = sample_referee\<rparr>"

text \<open>The sample form with the referee's email set to the applicant's.\<close>

definition same_email_form :: formData where
  "same_email_form =
     sample_form\<lparr>formData.referee := sample_referee\<lparr>referee.email := ''Ada.Obi@Example.COM''\<rparr>\<rparr>"

text \<open>
  That form as the object it is at run time, with no gender selected:
  \<^verbatim>\<open>{...form, personalInfo: {...form.personalInfo, gender: ''}}\<close>.
\<close>

fun with_prop :: "string \<Rightarrow> jsval \<Rightarrow> jsval \<Rightarrow> jsval" where
  "with_prop k x (JObj kvs) = JObj (AList.update k x kvs)"
| "with_prop k x v = v"

definition unselected_gender_form :: jsval where
  "unselected_gender_form =
     with_prop ''personalInfo''
       (with_prop ''gender'' (JStr []) (personalInfo_obj (formData.personalInfo same_email_form)))
       (JObj (formData_props same_email_form))"

text \<open>The personal information of the sample form with another date of birth.\<close>

definition born_on :: "string \<Rightarrow> jsval" where
  "born_on s = personalInfo_obj (sample_personalInfo\<lparr>dateOfBirth := s\<rparr>)"

text \<open>An email pattern that rejects every string, and one that accepts every string.\<close>

definition no_email :: "string \<Rightarrow> bool" where
  "no_email s = False"

definition any_email :: "string \<Rightarrow> bool" where
  "any_email s = True"

text \<open>An engine whose parser knows the ISO forms only.\<close>

definition iso_only :: "string \<Rightarrow> int option" where
  "iso_only s = None"

definition sample_fb_user :: fb_user where
  "sample_fb_user = \<lparr>uid = ''u1'', fb_user.email = Some ''ada@example.com'', displayName = None\<rparr>"

definition sample_clock :: clock where
  "sample_clock n = ''2025-02-01T10:00:00.000Z''"

text \<open>A Firestore backend that accepts every insert, under the same id.\<close>

definition fs_accepts :: "fs_call \<Rightarrow> unit \<Rightarrow> string settled \<times> unit" where
  "fs_accepts c w = (Fulfilled ''doc1'', w)"

definition sample_sb_user :: sb_user where
  "sample_sb_user = \<lparr>user_id = ''u1''\<rparr>"

text \<open>A store that answers every query with the error of code \<open>c\<close>.\<close>

definition sb_fails :: "string \<Rightarrow> unit remote" where
  "sb_fails c q w = (Fulfilled (SbError c ''rejected by the store''), w)"

text \<open>A store that answers every query with the error of code \<open>c\<close> and message \<open>m\<close>.\<close>

definition sb_error :: "string \<Rightarrow> string \<Rightarrow> unit remote" where
  "sb_error c m q w = (Fulfilled (SbError c m), w)"

text \<open>A Firestore backend that rejects every insert with an error of message \<open>m\<close>.\<close>

definition fs_rejects :: "string \<Rightarrow> fs_call \<Rightarrow> unit \<Rightarrow> string settled \<times> unit" where
  "fs_rejects m c w = (Rejected (Error m), w)"

text \<open>A store that answers every query with a row of id \<open>a1\<close>.\<close>

definition sb_accepts :: "unit remote" where
  "sb_accepts q w = (Fulfilled (SbData (JObj [(''id'', JStr ''a1'')])), w)"

definition fresh_world :: "'w \<Rightarrow> 'w world" where
  "fresh_world w = \<lparr>store = w, sb_requests = [], sb_toasts = []\<rparr>"

text \<open>An empty draft: every section is missing.\<close>

definition empty_draft :: partialFormData where
  "empty_draft =
     \<lparr>partialFormData.personalInfo = None, partialFormData.academicBackground = None,
      partialFormData.programSelection = None, partialFormData.accommodation = None,
      partialFormData.referee = None\<rparr>"

text \<open>A table with one draft of user \<open>u1\<close> and one of user \<open>u2\<close>.\<close>

definition row_of_u1 :: jsval where
  "row_of_u1 =
     JObj [(''id'', JStr ''a1''), (''user_id'', JStr ''u1''), (''status'', JStr ''draft''),
           (''created_at'', JStr ''2025-01-05T08:00:00.000Z'')]"

definition row_of_u2 :: jsval where
  "row_of_u2 =
     JObj [(''id'', JStr ''a2''), (''user_id'', JStr ''u2''), (''status'', JStr ''draft''),
           (''created_at'', JStr ''2025-01-06T08:00:00.000Z'')]"

definition sample_table :: table where
  "sample_table =
     \<lparr>rows = [row_of_u1, row_of_u2], minted = 2, mint = (\<lambda>n. ''a'' @ replicate n CHR ''+'')\<rparr>"

section \<open>The invariant of a guarded form instance\<close>

text \<open>
  At most one call of \<open>handleSubmit\<close> is suspended, and \<open>isSubmitting\<close> is set exactly
  while one is.
\<close>

definition at_most_one :: "form_instance \<Rightarrow> bool" where
  "at_most_one s = (length (snd s) \<le> 1 \<and> (isSubmitting (fst s) \<longleftrightarrow> snd s \<noteq> []))"

section \<open>Validation: names, date of birth, the cross-field check\<close>

lemma regex_test_star: "regex_test [star p] s = list_all p s"
proof -
  have "(\<exists>n\<in>set [0 ..< Suc (length s)]. list_all p (take n s) \<and> drop n s = []) = list_all p s"
    by (auto intro: bexI[of _ "length s"])
  then show ?thesis by (simp add: star_def list_ex_iff)
qed

lemma chk_nil:
  "chk_min n msg s = [] \<longleftrightarrow> n \<le> length s"
  "chk_max n msg s = [] \<longleftrightarrow> length s \<le> n"
  "chk_regex r msg s = [] \<longleftrightarrow> regex_test r s"
  "chk_refine p msg x = [] \<longleftrightarrow> p x"
  by (auto simp: chk_min_def chk_max_def chk_regex_def chk_refine_def)

lemma name_regex_iff: "regex_test name_regex s \<longleftrightarrow> (\<forall>c\<in>set s. is_alpha c \<or> is_ws c)"
  by (simp add: name_regex_def regex_test_star list_all_iff)

text \<open>
  Claim C4, as amended. A first or last name passes exactly when its length is between
  2 and 50 and each of its characters is an ASCII letter or a white space character of
  \<open>\<bsol>s\<close> (a space, but also a tab, a line break or a no-break space). The empty string
  matches the regular expression and is rejected by the length check.
\<close>

theorem name_fields_validation:
  "(firstName_schema s = [] \<longleftrightarrow>
      2 \<le> length s \<and> length s \<le> 50 \<and> (\<forall>c\<in>set s. is_alpha c \<or> is_ws c))
   \<and> (lastName_schema s = [] \<longleftrightarrow>
      2 \<le> length s \<and> length s \<le> 50 \<and> (\<forall>c\<in>set s. is_alpha c \<or> is_ws c))
   \<and> regex_test name_regex [] \<and> firstName_schema [] \<noteq> [] \<and> lastName_schema [] \<noteq> []"
  by (simp add: firstName_schema_def lastName_schema_def chk_nil name_regex_iff)

text \<open>
  Claim C4 as stated fails: the name \<open>A<TAB>B\<close> contains a tab, which is neither a
  letter nor a space, and passes.
\<close>

theorem name_tab_counterexample:
  "firstName_schema [CHR ''A'', CHR 0x09, CHR ''B''] = []
   \<and> \<not> is_alpha (CHR 0x09) \<and> CHR 0x09 \<noteq> CHR '' ''"
  by (simp add: firstName_schema_def chk_nil name_regex_iff is_alpha_def is_ws_def code_unit_def)

text \<open>The amended claim C4 at \<open>Mary Ann\<close> (accepted) and \<open>R2\<close> (rejected).\<close>

theorem name_fields_validation_witness:
  "firstName_schema ''Mary Ann'' = [] \<and> lastName_schema ''Mary Ann'' = []
   \<and> list_all (\<lambda>c. is_alpha c \<or> is_ws c) ''Mary Ann''
   \<and> firstName_schema ''R2'' \<noteq> []"
proof -
  have ok: "2 \<le> length ''Mary Ann'' \<and> length ''Mary Ann'' \<le> 50
      \<and> (\<forall>c\<in>set ''Mary Ann''. is_alpha c \<or> is_ws c)"
    by (simp add: is_alpha_def is_ws_def code_unit_def)
  have bad: "\<not> (\<forall>c\<in>set ''R2''. is_alpha c \<or> is_ws c)"
    by (simp add: is_alpha_def is_ws_def code_unit_def)
  from ok bad show ?thesis
    using name_fields_validation [of "''Mary Ann''"] name_fields_validation [of "''R2''"]
    unfolding list_all_iff by blast
qed

lemma div_bounds:
  fixes x c :: int
  assumes "0 < c"
  shows "c * (x div c) \<le> x" and "x - (c - 1) \<le> c * (x div c)"
proof -
  have e: "c * (x div c) + x mod c = x" by simp
  have m: "0 \<le> x mod c" "x mod c < c" using assms by simp_all
  show "c * (x div c) \<le> x" using e m by linarith
  show "x - (c - 1) \<le> c * (x div c)" using e m by linarith
qed

lemma DayFromYear_lower: "146097 * y - 287811596 \<le> 400 * DayFromYear y"
proof -
  define a b c where "a = (y - 1969) div 4" and "b = (y - 1901) div 100" and "c = (y - 1601) div 400"
  have "(y - 1969) - 3 \<le> 4 * a" "100 * b \<le> y - 1901" "(y - 1601) - 399 \<le> 400 * c"
    unfolding a_def b_def c_def
    using div_bounds[of 4 "y - 1969"] div_bounds[of 100 "y - 1901"] div_bounds[of 400 "y - 1601"]
    by simp_all
  moreover have "DayFromYear y = 365 * y - 719050 + a - b + c"
    by (simp add: DayFromYear_def a_def b_def c_def)
  ultimately show ?thesis by linarith
qed

lemma DayFromYear_upper: "400 * DayFromYear y \<le> 146097 * y - 287810501"
proof -
  define a b c where "a = (y - 1969) div 4" and "b = (y - 1901) div 100" and "c = (y - 1601) div 400"
  have "4 * a \<le> y - 1969" "y - 1901 - 99 \<le> 100 * b" "400 * c \<le> y - 1601"
    unfolding a_def b_def c_def
    using div_bounds[of 4 "y - 1969"] div_bounds[of 100 "y - 1901"] div_bounds[of 400 "y - 1601"]
    by simp_all
  moreover have "DayFromYear y = 365 * y - 719050 + a - b + c"
    by (simp add: DayFromYear_def a_def b_def c_def)
  ultimately show ?thesis by linarith
qed

lemma YearFromDay_largest:
  "DayFromYear (YearFromDay d) \<le> d \<and> d < DayFromYear (YearFromDay d + 1)"
proof -
  define q where "q = (d * 400) div 146097"
  have q: "146097 * q \<le> 400 * d" "400 * d < 146097 * q + 146097"
    unfolding q_def using div_bounds[of 146097 "d * 400"] by simp_all
  have lo: "DayFromYear (1969 + q) \<le> d"
    using DayFromYear_upper[of "1969 + q"] q by (simp add: algebra_simps)
  have hi: "d < DayFromYear (1972 + q)"
    using DayFromYear_lower[of "1972 + q"] q by (simp add: algebra_simps)
  show ?thesis
    using lo hi unfolding YearFromDay_def Let_def q_def[symmetric]
    by (auto simp: algebra_simps)
qed

lemma parse_reference: "parse_iso_date ''2025-02-27'' = Some (2025, 2, 27)"
  by (simp add: parse_iso_date_def is_digit_def code_unit_def digits_val_def days_in_month_def InLeapYear_def)

lemma reference_date: "Date_new fb ''2025-02-27'' = Some (20146 * msPerDay)"
  by (simp add: Date_new_def parse_reference MakeDay_def MakeDate_def DayFromYear_def
      month_start_def InLeapYear_def TimeClip_def msPerDay_def)

lemma civil_20146: "YearFromDay 20146 = 2025" "YearFromDay 20145 = 2025"
  by (simp_all add: YearFromDay_def DayFromYear_def)

lemma Day_shift:
  assumes "0 \<le> r" "r < msPerDay"
  shows "Day (n * msPerDay + r) = n" "TimeWithinDay (n * msPerDay + r) = r"
proof -
  have "0 < msPerDay" by (simp add: msPerDay_def)
  show "Day (n * msPerDay + r) = n"
    unfolding Day_def using assms by (intro int_div_pos_eq[of _ _ _ r]) (simp_all add: mult.commute)
  show "TimeWithinDay (n * msPerDay + r) = r"
    unfolding TimeWithinDay_def using assms by (intro int_mod_pos_eq[of _ _ n]) (simp_all add: mult.commute)
qed

lemma local_fields_east:
  assumes "0 \<le> tza" "tza < msPerDay"
  shows "YearFromTime (20146 * msPerDay + tza) = 2025"
    and "MonthFromTime (20146 * msPerDay + tza) = 1"
    and "DateFromTime (20146 * msPerDay + tza) = 27"
  using Day_shift[OF assms, of 20146]
  by (simp_all add: YearFromTime_def MonthFromTime_def DateFromTime_def DayWithinYear_def civil_20146
      DayFromYear_def InLeapYear_def month_start_def)

lemma local_fields_west:
  assumes "- msPerDay < tza" "tza < 0"
  shows "Day (20146 * msPerDay + tza) = 20145"
    and "TimeWithinDay (20146 * msPerDay + tza) = tza + msPerDay"
    and "YearFromTime (20146 * msPerDay + tza) = 2025"
    and "MonthFromTime (20146 * msPerDay + tza) = 1"
    and "DateFromTime (20146 * msPerDay + tza) = 26"
proof -
  have e: "20146 * msPerDay + tza = 20145 * msPerDay + (tza + msPerDay)" by simp
  have r: "0 \<le> tza + msPerDay" "tza + msPerDay < msPerDay" using assms by simp_all
  note s = Day_shift[OF r, of 20145, folded e]
  show "Day (20146 * msPerDay + tza) = 20145" by (rule s)
  show "TimeWithinDay (20146 * msPerDay + tza) = tza + msPerDay" by (rule s)
  show "YearFromTime (20146 * msPerDay + tza) = 2025"
    by (simp add: YearFromTime_def s civil_20146)
  show "MonthFromTime (20146 * msPerDay + tza) = 1"
    by (simp add: YearFromTime_def MonthFromTime_def DayWithinYear_def s civil_20146
      DayFromYear_def InLeapYear_def month_start_def)
  show "DateFromTime (20146 * msPerDay + tza) = 26"
    by (simp add: YearFromTime_def MonthFromTime_def DateFromTime_def DayWithinYear_def s civil_20146
      DayFromYear_def InLeapYear_def month_start_def)
qed

text \<open>
  The cutoff on a host whose offset is \<open>o1\<close> at midnight UTC of 2025-02-27 and \<open>o2\<close> at
  the local time that \<open>setFullYear\<close> arrives at: midnight UTC of 2007-02-27, moved by
  the difference of the two offsets.
\<close>

lemma local_2007:
  assumes "\<bar>o1\<bar> < msPerDay"
  shows "YearFromTime (20146 * msPerDay + o1) = 2025"
    and "MakeDate (MakeDay 2007 (MonthFromTime (20146 * msPerDay + o1))
            (DateFromTime (20146 * msPerDay + o1))) (TimeWithinDay (20146 * msPerDay + o1))
         = 13571 * msPerDay + o1"
proof -
  show "YearFromTime (20146 * msPerDay + o1) = 2025"
  proof (cases "0 \<le> o1")
    case True
    then have r: "0 \<le> o1" "o1 < msPerDay" using assms by simp_all
    show ?thesis by (rule local_fields_east[OF r])
  next
    case False
    then have r: "- msPerDay < o1" "o1 < 0" using assms by simp_all
    show ?thesis by (rule local_fields_west[OF r])
  qed
  show "MakeDate (MakeDay 2007 (MonthFromTime (20146 * msPerDay + o1))
            (DateFromTime (20146 * msPerDay + o1))) (TimeWithinDay (20146 * msPerDay + o1))
         = 13571 * msPerDay + o1"
  proof (cases "0 \<le> o1")
    case True
    then have r: "0 \<le> o1" "o1 < msPerDay" using assms by simp_all
    show ?thesis
      by (simp add: local_fields_east[OF r] Day_shift[OF r] MakeDay_def MakeDate_def DayFromYear_def
          month_start_def InLeapYear_def)
  next
    case False
    then have r: "- msPerDay < o1" "o1 < 0" using assms by simp_all
    show ?thesis
      by (simp add: local_fields_west[OF r] MakeDay_def MakeDate_def DayFromYear_def
          month_start_def InLeapYear_def)
  qed
qed

lemma minBirthDate_value:
  assumes "tza_utc z (20146 * msPerDay) = o1" and "\<bar>o1\<bar> < msPerDay"
    and "tza_local z (13571 * msPerDay + o1) = o2" and "\<bar>o2\<bar> < msPerDay"
  shows "minBirthDate fb z = Some (13571 * msPerDay + o1 - o2)"
proof -
  have lt: "LocalTime z (20146 * msPerDay) = 20146 * msPerDay + o1"
    by (simp add: LocalTime_def assms(1))
  have utc: "UTC z (13571 * msPerDay + o1) = 13571 * msPerDay + o1 - o2"
    by (simp add: UTC_def assms(3))
  have clip: "TimeClip (13571 * msPerDay + o1 - o2) = Some (13571 * msPerDay + o1 - o2)"
    using assms(2,4) by (simp add: TimeClip_def msPerDay_def)
  show ?thesis
    by (simp add: minBirthDate_def reference_date getFullYear_def setFullYear_def lt
        local_2007[OF assms(2)] utc clip)
qed

lemma minBirthDate_fixed_zone:
  assumes "\<bar>off\<bar> < msPerDay"
  shows "minBirthDate fb (fixed_zone off) = Some (13571 * msPerDay)"
  using minBirthDate_value[of "fixed_zone off" off off fb] assms by (simp add: fixed_zone_def)

lemma minBirthDate_lagos: "minBirthDate fb lagos = Some 1172534400000"
  using minBirthDate_fixed_zone[of 3600000 fb] by (simp add: lagos_def msPerDay_def)

lemma minBirthDate_khartoum: "minBirthDate fb khartoum = Some 1172530800000"
  using minBirthDate_value[of khartoum 7200000 10800000 fb] by (simp add: khartoum_def msPerDay_def)

lemma minBirthDate_apia: "minBirthDate fb apia = Some 1172620800000"
  using minBirthDate_value[of apia 46800000 "- 39600000" fb] by (simp add: apia_def msPerDay_def)

lemma digits_val_snoc: "digits_val (ds @ [c]) = 10 * digits_val ds + (int (code_unit c) - 48)"
  by (simp add: digits_val_def)

lemma digits_val_bounds:
  "list_all is_digit ds \<Longrightarrow> 0 \<le> digits_val ds \<and> digits_val ds < 10 ^ length ds"
proof (induction ds rule: rev_induct)
  case Nil
  show ?case by (simp add: digits_val_def)
next
  case (snoc c ds)
  then have ih: "0 \<le> digits_val ds" "digits_val ds < 10 ^ length ds" by simp_all
  from snoc.prems have c: "48 \<le> code_unit c" "code_unit c \<le> 57" by (simp_all add: is_digit_def)
  from ih(2) have "digits_val ds + 1 \<le> 10 ^ length ds" by simp
  then have "10 * digits_val ds + 10 \<le> 10 * 10 ^ length ds" by simp
  with ih(1) c show ?case by (simp add: digits_val_snoc)
qed

lemma parse_iso_date_fields:
  assumes "parse_iso_date s = Some (y, m, d)"
  shows "0 \<le> y" "y \<le> 9999" "1 \<le> m" "m \<le> 12" "1 \<le> d" "d \<le> days_in_month y m"
proof -
  from assms have l: "length s = 10" and dg: "list_all is_digit (take 4 s)"
    and y: "y = digits_val (take 4 s)"
    and rest: "1 \<le> m" "m \<le> 12" "1 \<le> d" "d \<le> days_in_month y m"
    by (auto simp: parse_iso_date_def Let_def split: if_splits)
  from digits_val_bounds[OF dg] l y show "0 \<le> y" "y \<le> 9999" by simp_all
  from rest show "1 \<le> m" "m \<le> 12" "1 \<le> d" "d \<le> days_in_month y m" by simp_all
qed

lemma month_cases:
  fixes m :: int
  assumes "1 \<le> m" "m \<le> 12"
  shows "m = 1 \<or> m = 2 \<or> m = 3 \<or> m = 4 \<or> m = 5 \<or> m = 6 \<or> m = 7 \<or> m = 8 \<or> m = 9 \<or> m = 10
         \<or> m = 11 \<or> m = 12"
  using assms by arith

lemma day_within_year_bounds:
  assumes "1 \<le> m" "m \<le> 12" "1 \<le> d" "d \<le> days_in_month y m"
  shows "0 \<le> month_start leap (m - 1) + d - 1" "month_start leap (m - 1) + d - 1 \<le> 365"
  using month_cases[OF assms(1,2)] assms(3,4)
  by (auto simp: month_start_def days_in_month_def split: if_splits)

lemma MakeDay_calendar:
  assumes "1 \<le> m" "m \<le> 12"
  shows "MakeDay y (m - 1) d = DayFromYear y + month_start (InLeapYear y) (m - 1) + d - 1"
proof -
  from assms have "(m - 1) div 12 = 0" "(m - 1) mod 12 = m - 1" by simp_all
  then show ?thesis by (simp add: MakeDay_def)
qed

lemma DayFromYear_2007: "DayFromYear 2007 = 13514"
  by (simp add: DayFromYear_def)

lemma MakeDay_cutoff:
  assumes "1 \<le> m" "m \<le> 12" "1 \<le> d" "d \<le> days_in_month y m"
  shows "MakeDay y (m - 1) d \<le> 13571 \<longleftrightarrow> y < 2007 \<or> (y = 2007 \<and> (m < 2 \<or> (m = 2 \<and> d \<le> 27)))"
proof -
  note md = MakeDay_calendar[OF assms(1,2), of y d]
  note b = day_within_year_bounds[OF assms, of "InLeapYear y"]
  consider "y < 2007" | "y = 2007" | "2007 < y" by linarith
  then show ?thesis
  proof cases
    case 1
    then have "400 * DayFromYear y \<le> 5260081" using DayFromYear_upper[of y] by linarith
    then have "DayFromYear y \<le> 13150" by linarith
    with b md 1 show ?thesis by linarith
  next
    case 2
    have nl: "\<not> InLeapYear 2007" by (simp add: InLeapYear_def)
    have md7: "MakeDay 2007 (m - 1) d = 13514 + month_start False (m - 1) + d - 1"
      using md by (simp add: 2 nl DayFromYear_2007)
    from month_cases[OF assms(1,2)] assms(3,4) show ?thesis
      unfolding 2 md7
      by (auto simp: nl month_start_def days_in_month_def)
  next
    case 3
    then have "5551180 \<le> 400 * DayFromYear y" using DayFromYear_lower[of y] by linarith
    then have "13878 \<le> DayFromYear y" by linarith
    with b md 3 show ?thesis by linarith
  qed
qed

lemma Date_new_calendar:
  assumes "parse_iso_date s = Some (y, m, d)"
  shows "Date_new fb s = Some (MakeDay y (m - 1) d * msPerDay)"
proof -
  note f = parse_iso_date_fields[OF assms]
  note md = MakeDay_calendar[OF f(3,4), of y d]
  note b = day_within_year_bounds[OF f(3,4,5,6), of "InLeapYear y"]
  have "- 287811596 \<le> 400 * DayFromYear y" using DayFromYear_lower[of y] f(1) by linarith
  moreover have "400 * DayFromYear y \<le> 1173013402" using DayFromYear_upper[of y] f(2) by linarith
  ultimately have "- 1000000 \<le> MakeDay y (m - 1) d" "MakeDay y (m - 1) d \<le> 3000000"
    using b md by linarith+
  then have "\<bar>MakeDay y (m - 1) d * msPerDay\<bar> \<le> 8640000000000000"
    by (simp add: msPerDay_def abs_le_iff)
  then show ?thesis
    using assms by (simp add: Date_new_def MakeDate_def TimeClip_def)
qed

lemma parse_cutoff_dates:
  "parse_iso_date ''2007-02-27'' = Some (2007, 2, 27)"
  "parse_iso_date ''2007-02-28'' = Some (2007, 2, 28)"
  by (simp_all add: parse_iso_date_def is_digit_def code_unit_def digits_val_def days_in_month_def
      InLeapYear_def)

lemma Date_new_cutoff_dates:
  "Date_new fb ''2007-02-27'' = Some 1172534400000"
  "Date_new fb ''2007-02-28'' = Some 1172620800000"
  by (simp_all add: Date_new_calendar[OF parse_cutoff_dates(1)] Date_new_calendar[OF parse_cutoff_dates(2)]
      MakeDay_def DayFromYear_def month_start_def InLeapYear_def msPerDay_def)

text \<open>
  On a host whose offset from UTC never changes, the cutoff is midnight UTC of
  2007-02-27, and a date of birth given as the calendar date \<open>y-m-d\<close> passes exactly
  when it is on or before 2007-02-27.
\<close>

lemma dateOfBirth_fixed_zone:
  assumes "\<bar>off\<bar> < msPerDay" and "parse_iso_date s = Some (y, m, d)"
  shows "minBirthDate fb (fixed_zone off) = Date_new fb ''2007-02-27''
         \<and> (dateOfBirth_schema fb (fixed_zone off) s = []
            \<longleftrightarrow> y < 2007 \<or> (y = 2007 \<and> (m < 2 \<or> (m = 2 \<and> d \<le> 27))))"
proof -
  note f = parse_iso_date_fields[OF assms(2)]
  have pos: "0 < msPerDay" by (simp add: msPerDay_def)
  have "dateOfBirth_schema fb (fixed_zone off) s = []
      \<longleftrightarrow> MakeDay y (m - 1) d * msPerDay \<le> 13571 * msPerDay"
    by (simp add: dateOfBirth_schema_def chk_nil dateOfBirth_refine_def Date_new_calendar[OF assms(2)]
        minBirthDate_fixed_zone[OF assms(1)] date_le_def)
  also have "\<dots> \<longleftrightarrow> MakeDay y (m - 1) d \<le> 13571"
    using pos by simp
  also have "\<dots> \<longleftrightarrow> y < 2007 \<or> (y = 2007 \<and> (m < 2 \<or> (m = 2 \<and> d \<le> 27)))"
    by (rule MakeDay_cutoff[OF f(3,4,5,6)])
  finally show ?thesis
    by (simp add: minBirthDate_fixed_zone[OF assms(1)] Date_new_cutoff_dates msPerDay_def)
qed

lemma born_on_dateOfBirth:
  "([Key ''dateOfBirth''], m) \<in> set (snd (personalInfoSchema zemail fb z (born_on s)))
   \<longleftrightarrow> ([], m) \<in> set (dateOfBirth_schema fb z s)"
  by (auto simp: personalInfoSchema_def born_on_def personalInfo_obj_def sample_personalInfo_def
      z_object_def z_string_def z_enum_def z_optional_def z_boolean_def member_def opt_prop_def
      at_key_def Let_def)

text \<open>
  Claim C5. The cutoff depends on no clock, but it depends on the time zone of the host:
  the reference date is parsed as midnight UTC, and \<open>setFullYear\<close> moves it by 18
  years in local time, reading the offset of 2025 going in and that of 2007 coming out.
  In Khartoum (two hours ahead in 2025, three in 2007) the cutoff is 2007-02-26 23:00
  UTC, and an applicant born on 2007-02-27 is rejected with the message that they must
  be 18 by February 27, 2025. In Apia (thirteen hours ahead in 2025, eleven behind in
  2007) the cutoff is midnight UTC of 2007-02-28, and an applicant born on 2007-02-28 is
  accepted. In Lagos (one hour ahead throughout) 2007-02-27 is accepted and 2007-02-28
  rejected.
\<close>

theorem dateOfBirth_cutoff_by_zone:
  "minBirthDate fb khartoum = Some 1172530800000
   \<and> Date_new fb ''2007-02-27'' = Some 1172534400000
   \<and> dateOfBirth_schema fb khartoum ''2007-02-27''
       = [([], ''You must be at least 18 years old by February 27, 2025'')]
   \<and> ([Key ''dateOfBirth''], ''You must be at least 18 years old by February 27, 2025'')
       \<in> set (snd (personalInfoSchema zemail fb khartoum (born_on ''2007-02-27'')))
   \<and> minBirthDate fb apia = Some 1172620800000
   \<and> Date_new fb ''2007-02-28'' = Some 1172620800000
   \<and> dateOfBirth_schema fb apia ''2007-02-28'' = []
   \<and> dateOfBirth_schema fb lagos ''2007-02-27'' = []
   \<and> dateOfBirth_schema fb lagos ''2007-02-28''
       = [([], ''You must be at least 18 years old by February 27, 2025'')]"
proof -
  have k: "dateOfBirth_schema fb khartoum ''2007-02-27''
      = [([], ''You must be at least 18 years old by February 27, 2025'')]"
    by (simp add: dateOfBirth_schema_def chk_refine_def dateOfBirth_refine_def date_le_def
        Date_new_cutoff_dates minBirthDate_khartoum)
  have a: "dateOfBirth_schema fb apia ''2007-02-28'' = []"
    by (simp add: dateOfBirth_schema_def chk_refine_def dateOfBirth_refine_def date_le_def
        Date_new_cutoff_dates minBirthDate_apia)
  have l: "dateOfBirth_schema fb lagos ''2007-02-27'' = []"
    "dateOfBirth_schema fb lagos ''2007-02-28''
       = [([], ''You must be at least 18 years old by February 27, 2025'')]"
    by (simp_all add: dateOfBirth_schema_def chk_refine_def dateOfBirth_refine_def date_le_def
        Date_new_cutoff_dates minBirthDate_lagos)
  have p: "([Key ''dateOfBirth''], ''You must be at least 18 years old by February 27, 2025'')
       \<in> set (snd (personalInfoSchema zemail fb khartoum (born_on ''2007-02-27'')))"
    by (simp add: born_on_dateOfBirth k)
  from k a l p show ?thesis
    by (simp add: minBirthDate_khartoum minBirthDate_apia Date_new_cutoff_dates)
qed

lemma chk_member:
  "(p, m) \<in> set (chk_min n msg s) \<Longrightarrow> m = msg"
  "(p, m) \<in> set (chk_max n msg s) \<Longrightarrow> m = msg"
  "(p, m) \<in> set (chk_regex r msg s) \<Longrightarrow> m = msg"
  "(p, m) \<in> set (chk_refine f msg x) \<Longrightarrow> m = msg"
  by (auto simp: chk_min_def chk_max_def chk_regex_def chk_refine_def split: if_splits)

text \<open>What aborts a parse: a value of the wrong type or outside the enumeration, never a check.\<close>

lemma aborted_values:
  "fst (z_string checks v) = Aborted \<longleftrightarrow> (\<forall>s. v \<noteq> JStr s)"
  "fst (z_boolean v) = Aborted \<longleftrightarrow> (\<forall>b. v \<noteq> JBool b)"
  "fst (z_enum vals custom v) = Aborted \<longleftrightarrow> (\<forall>s. v = JStr s \<longrightarrow> s \<notin> set vals)"
  "fst (z_optional sch v) = Aborted \<longleftrightarrow> v \<noteq> JUndefined \<and> fst (sch v) = Aborted"
proof -
  show "fst (z_string checks v) = Aborted \<longleftrightarrow> (\<forall>s. v \<noteq> JStr s)"
    by (cases v) (simp_all add: z_string_def check_status_def)
  show "fst (z_boolean v) = Aborted \<longleftrightarrow> (\<forall>b. v \<noteq> JBool b)"
    by (cases v) (simp_all add: z_boolean_def)
  show "fst (z_enum vals custom v) = Aborted \<longleftrightarrow> (\<forall>s. v = JStr s \<longrightarrow> s \<notin> set vals)"
    by (cases v) (simp_all add: z_enum_def)
  show "fst (z_optional sch v) = Aborted \<longleftrightarrow> v \<noteq> JUndefined \<and> fst (sch v) = Aborted"
    by (simp add: z_optional_def)
qed

lemma z_object_JObj:
  "z_object shape (JObj kvs)
   = (merge (map (\<lambda>e. fst (snd e (member kvs (fst e)))) shape),
      concat (map (\<lambda>e. at_key (fst e) (snd (snd e (member kvs (fst e))))) shape))"
  by (simp add: z_object_def Let_def split_def comp_def)

lemma z_object_issues:
  "(Key k # p, m) \<in> set (snd (z_object shape (JObj kvs)))
   \<longleftrightarrow> (\<exists>sch. (k, sch) \<in> set shape \<and> (p, m) \<in> set (snd (sch (member kvs k))))"
proof -
  have "(Key k # p, m) \<in> set (concat (map (\<lambda>e. at_key (fst e) (snd (snd e (member kvs (fst e))))) shape))
      \<longleftrightarrow> (\<exists>sch. (k, sch) \<in> set shape \<and> (p, m) \<in> set (snd (sch (member kvs k))))"
    by (induction shape) (auto simp: at_key_def)
  then show ?thesis by (simp add: z_object_JObj)
qed

lemma z_object_aborted:
  "fst (z_object shape (JObj kvs)) = Aborted
   \<longleftrightarrow> (\<exists>e \<in> set shape. fst (snd e (member kvs (fst e))) = Aborted)"
proof -
  have "fst (z_object shape (JObj kvs)) = Aborted
      \<longleftrightarrow> Aborted \<in> (\<lambda>e. fst (snd e (member kvs (fst e)))) ` set shape"
    by (simp add: z_object_JObj merge_def)
  also have "\<dots> \<longleftrightarrow> (\<exists>e \<in> set shape. fst (snd e (member kvs (fst e))) = Aborted)"
    by (metis (mono_tags, lifting) image_iff)
  finally show ?thesis .
qed

lemma z_object_root_issue:
  "(\<forall>kvs. v \<noteq> JObj kvs) \<Longrightarrow> snd (z_object shape v) = [([], invalid_type_message ''object'' v)]"
  by (cases v) (simp_all add: z_object_def)

lemma referee_email_issues:
  "([], ''Referee's email must be different from your email'')
     \<notin> set (snd (z_string (referee_email_checks zemail) x))"
  by (cases x)
    (auto simp: z_string_def referee_email_checks_def invalid_type_message_def dest: chk_member)

lemma referee_issues:
  "([Key ''email''], ''Referee's email must be different from your email'')
     \<notin> set (snd (refereeSchema zemail w))"
proof (cases "\<exists>fs. w = JObj fs")
  case True
  then obtain fs where w: "w = JObj fs" by blast
  show ?thesis
    using referee_email_issues[of zemail "member fs ''email''"]
    by (auto simp: w refereeSchema_def z_object_issues)
next
  case False
  then show ?thesis by (simp add: refereeSchema_def z_object_root_issue)
qed

lemma cross_field_not_sectional: "cross_field_issue \<notin> set (snd (sectionsSchema zemail fb z v))"
proof (cases "\<exists>kvs. v = JObj kvs")
  case True
  then obtain kvs where v: "v = JObj kvs" by blast
  show ?thesis
    using referee_issues[of zemail "member kvs ''referee''"]
    by (auto simp: v cross_field_issue_def sectionsSchema_def z_object_issues)
next
  case False
  then show ?thesis by (simp add: sectionsSchema_def z_object_root_issue cross_field_issue_def)
qed

text \<open>
  A record of the inferred type \<open>ApplicationFormData\<close> never aborts the parse: its fields
  are present, of their types and within their enumerations.
\<close>

lemma enum_strings:
  "gender_str g \<in> set [''male'', ''female'', ''other'']"
  "educationLevel_str e \<in> set [''none'', ''primary'', ''js'', ''jsse'', ''ssce'', ''tertiary'']"
  "tertiaryEducation_str t \<in> set [''none'', ''certificate'', ''national_diploma'', ''degree'', ''other'']"
  "studyMode_str sm \<in> set [''full-time'', ''part-time'', ''weekend'']"
  "sponsorshipType_str st \<in> set [''self'', ''organization'', ''guardian'']"
  apply (cases g; simp)
  apply (cases e; simp)
  apply (cases t; simp)
  apply (cases sm; simp)
  apply (cases st; simp)
  done

lemma personalInfo_typed: "fst (personalInfoSchema zemail fb z (personalInfo_obj p)) \<noteq> Aborted"
  using enum_strings(1)[of "gender p"]
  by (auto simp: personalInfoSchema_def personalInfo_obj_def z_object_aborted aborted_values
      member_def opt_prop_def split: option.splits)

lemma certificate_typed: "fst (certificate_schema (certificate_obj c)) \<noteq> Aborted"
  by (simp add: certificate_schema_def certificate_obj_def z_object_aborted aborted_values member_def)

lemma certificates_typed: "Aborted \<notin> set (map fst (map certificate_schema (map certificate_obj cs)))"
proof -
  have "Aborted \<noteq> fst (certificate_schema (certificate_obj c))" for c
    using certificate_typed[of c] by (rule not_sym)
  then show ?thesis by auto
qed

lemma academicBackground_typed: "fst (academicBackgroundSchema (academicBackground_obj a)) \<noteq> Aborted"
  using enum_strings(2)[of "educationLevel a"] enum_strings(3) certificates_typed[of "certificates a"]
  by (auto simp: academicBackgroundSchema_def academicBackground_obj_def z_object_aborted
      aborted_values member_def opt_prop_def z_array_def merge_def Let_def split: option.splits)

lemma programSelection_typed: "fst (programSelectionSchema (programSelection_obj p)) \<noteq> Aborted"
  using enum_strings(4)[of "studyMode p"]
  by (auto simp: programSelectionSchema_def programSelection_obj_def z_object_aborted aborted_values
      member_def opt_prop_def split: option.splits)

lemma accommodation_typed: "fst (accommodationSchema (accommodation_obj a)) \<noteq> Aborted"
  using enum_strings(5)[of "sponsorshipType a"]
  by (auto simp: accommodationSchema_def accommodation_obj_def z_object_aborted aborted_values
      member_def)

lemma referee_typed: "fst (refereeSchema zemail (referee_obj r)) \<noteq> Aborted"
  by (auto simp: refereeSchema_def referee_obj_def z_object_aborted aborted_values member_def)

lemma sections_typed: "fst (sectionsSchema zemail fb z (JObj (formData_props d))) \<noteq> Aborted"
  using personalInfo_typed[of zemail fb z "formData.personalInfo d"]
    academicBackground_typed[of "formData.academicBackground d"]
    programSelection_typed[of "formData.programSelection d"]
    accommodation_typed[of "formData.accommodation d"]
    referee_typed[of zemail "formData.referee d"]
  by (auto simp: sectionsSchema_def formData_props_def z_object_aborted member_def)

lemma emails_typed:
  "email_of (JObj (formData_props d)) ''referee'' = JStr (referee.email (formData.referee d))"
  "email_of (JObj (formData_props d)) ''personalInfo''
     = JStr (personalInfo.email (formData.personalInfo d))"
  by (simp_all add: email_of_def formData_props_def member_def referee_obj_def personalInfo_obj_def)

text \<open>
  Claim C6, as amended. When the parse of the five sections is not aborted and the
  referee's email equals the applicant's, the aggregate is rejected with an issue at the
  path \<open>referee.email\<close>, whatever issues the checks of the sections raise. When the parse
  of the sections is aborted (a field is missing or of another type, or a value is
  outside its enumeration), the cross-field check is not run: the aggregate is rejected
  with the issues of the sections alone, none of which is the cross-field issue. When
  the two emails differ, the cross-field check adds nothing. A record of the inferred
  type never aborts the parse.
\<close>

theorem referee_email_cross_field:
  "(fst (sectionsSchema zemail fb z v) \<noteq> Aborted
      \<and> email_of v ''referee'' = email_of v ''personalInfo'' \<longrightarrow>
      ([Key ''referee'', Key ''email''], ''Referee's email must be different from your email'')
        \<in> set (snd (applicationSchema zemail fb z v))
      \<and> \<not> safeParse_success (applicationSchema zemail fb z v))
   \<and> (fst (sectionsSchema zemail fb z v) = Aborted \<longrightarrow>
      applicationSchema zemail fb z v = sectionsSchema zemail fb z v
      \<and> \<not> safeParse_success (applicationSchema zemail fb z v))
   \<and> (email_of v ''referee'' \<noteq> email_of v ''personalInfo'' \<longrightarrow>
      applicationSchema zemail fb z v = sectionsSchema zemail fb z v)
   \<and> ([Key ''referee'', Key ''email''], ''Referee's email must be different from your email'')
        \<notin> set (snd (sectionsSchema zemail fb z v))
   \<and> fst (sectionsSchema zemail fb z (JObj (formData_props d))) \<noteq> Aborted
   \<and> (referee.email (formData.referee d) = personalInfo.email (formData.personalInfo d) \<longrightarrow>
      ([Key ''referee'', Key ''email''], ''Referee's email must be different from your email'')
        \<in> set (snd (applicationSchema zemail fb z (JObj (formData_props d)))))"
  using cross_field_not_sectional [of zemail fb z v] sections_typed [of zemail fb z d]
  by (auto simp: applicationSchema_def z_refine_def safeParse_success_def cross_field_issue_def
      emails_differ_def emails_typed split: prod.splits)

text \<open>The sample form is a valid application; without a gender its parse is aborted.\<close>

lemma sample_dob: "dateOfBirth_schema fb lagos ''2000-01-31'' = []"
proof -
  have t: "\<bar>3600000\<bar> < msPerDay" by (simp add: msPerDay_def)
  have p: "parse_iso_date ''2000-01-31'' = Some (2000, 1, 31)"
    by (simp add: parse_iso_date_def is_digit_def code_unit_def digits_val_def days_in_month_def
        InLeapYear_def)
  from dateOfBirth_fixed_zone [OF t p, of fb] show ?thesis by (simp add: lagos_def)
qed

lemma sample_phones:
  "regex_test phone_regex ''+2348012345678''" "regex_test phone_regex ''+2348098765432''"
  "regex_test year_regex ''2018''" "regex_test name_regex ''  Ada ''" "regex_test name_regex ''Obi''"
  by (simp_all add: phone_regex_def year_regex_def name_regex_def star_def lit_def is_digit_def
      is_digit19_def is_alpha_def is_ws_def code_unit_def)

lemmas schema_defs =
  sectionsSchema_def personalInfoSchema_def academicBackgroundSchema_def certificate_schema_def
  programSelectionSchema_def accommodationSchema_def refereeSchema_def referee_email_checks_def
  firstName_schema_def lastName_schema_def no_checks_def
  z_object_def z_array_def z_string_def z_enum_def z_optional_def z_boolean_def member_def
  merge_def check_status_def at_key_def at_idx_def chk_min_def chk_max_def chk_regex_def
  chk_refine_def enumerate_eq_zip

lemmas sample_defs =
  formData_props_def personalInfo_obj_def academicBackground_obj_def certificate_obj_def
  programSelection_obj_def accommodation_obj_def referee_obj_def opt_prop_def
  same_email_form_def sample_form_def sample_personalInfo_def sample_referee_def

lemma sample_form_valid:
  "sectionsSchema any_email iso_only lagos (JObj (formData_props sample_form)) = (Valid, [])"
  by (simp add: schema_defs sample_defs any_email_def sample_dob sample_phones)

lemma same_email_form_checks:
  "fst (sectionsSchema no_email iso_only lagos (JObj (formData_props same_email_form))) = Dirty"
  by (simp add: schema_defs sample_defs no_email_def sample_dob sample_phones)

lemma unselected_gender_parse:
  "sectionsSchema any_email iso_only lagos unselected_gender_form
   = (Aborted, [([Key ''personalInfo'', Key ''gender''], ''Please select your gender'')])"
  by (simp add: unselected_gender_form_def schema_defs sample_defs any_email_def sample_dob
      sample_phones)

lemma unselected_gender_emails:
  "email_of unselected_gender_form ''referee'' = JStr ''Ada.Obi@Example.COM''"
  "email_of unselected_gender_form ''personalInfo'' = JStr ''Ada.Obi@Example.COM''"
  by (simp_all add: unselected_gender_form_def email_of_def member_def sample_defs)

text \<open>
  Claim C6 as stated fails: on the sample form with the referee's email set to the
  applicant's and no gender selected, the parse is aborted at \<open>personalInfo.gender\<close>,
  the cross-field check is not run, and no issue is attached to \<open>referee.email\<close>.
\<close>

theorem unselected_gender_counterexample:
  "email_of unselected_gender_form ''referee'' = email_of unselected_gender_form ''personalInfo''
   \<and> applicationSchema any_email iso_only lagos unselected_gender_form
     = (Aborted, [([Key ''personalInfo'', Key ''gender''], ''Please select your gender'')])
   \<and> ([Key ''referee'', Key ''email''], ''Referee's email must be different from your email'')
       \<notin> set (snd (applicationSchema any_email iso_only lagos unselected_gender_form))"
  by (simp add: applicationSchema_def z_refine_def unselected_gender_parse unselected_gender_emails)

text \<open>
  The amended claim C6 at the sample form with the referee's email set to the
  applicant's, under an email pattern that makes the sections raise issues of their own
  and under one that does not; at that form with no gender selected, where the parse
  is aborted; and at the sample form as it is, which passes.
\<close>

theorem referee_email_cross_field_witness:
  "fst (sectionsSchema no_email iso_only lagos (JObj (formData_props same_email_form))) = Dirty
   \<and> email_of (JObj (formData_props same_email_form)) ''referee''
       = email_of (JObj (formData_props same_email_form)) ''personalInfo''
   \<and> ([Key ''referee'', Key ''email''], ''Referee's email must be different from your email'')
       \<in> set (snd (applicationSchema no_email iso_only lagos (JObj (formData_props same_email_form))))
   \<and> ([Key ''referee'', Key ''email''], ''Referee's email must be different from your email'')
       \<in> set (snd (applicationSchema any_email iso_only lagos (JObj (formData_props same_email_form))))
   \<and> \<not> safeParse_success (applicationSchema any_email iso_only lagos (JObj (formData_props same_email_form)))
   \<and> fst (sectionsSchema any_email iso_only lagos unselected_gender_form) = Aborted
   \<and> \<not> safeParse_success (applicationSchema any_email iso_only lagos unselected_gender_form)
   \<and> email_of (JObj (formData_props sample_form)) ''referee''
       \<noteq> email_of (JObj (formData_props sample_form)) ''personalInfo''
   \<and> safeParse_success (applicationSchema any_email iso_only lagos (JObj (formData_props sample_form)))"
proof -
  have same: "email_of (JObj (formData_props same_email_form)) ''referee''
       = email_of (JObj (formData_props same_email_form)) ''personalInfo''"
    by (simp add: emails_typed same_email_form_def sample_form_def sample_personalInfo_def)
  have differ: "email_of (JObj (formData_props sample_form)) ''referee''
       \<noteq> email_of (JObj (formData_props sample_form)) ''personalInfo''"
    by (simp add: emails_typed sample_form_def sample_personalInfo_def sample_referee_def)
  have dirty: "fst (sectionsSchema no_email iso_only lagos (JObj (formData_props same_email_form)))
       \<noteq> Aborted"
    by (simp add: same_email_form_checks)
  have clean: "fst (sectionsSchema any_email iso_only lagos (JObj (formData_props same_email_form)))
       \<noteq> Aborted"
    by (rule sections_typed)
  have aborted: "fst (sectionsSchema any_email iso_only lagos unselected_gender_form) = Aborted"
    by (simp add: unselected_gender_parse)
  have valid: "safeParse_success (sectionsSchema any_email iso_only lagos (JObj (formData_props sample_form)))"
    by (simp add: safeParse_success_def sample_form_valid)
  note at_checks = referee_email_cross_field
    [of no_email iso_only lagos "JObj (formData_props same_email_form)" same_email_form]
  note at_same = referee_email_cross_field
    [of any_email iso_only lagos "JObj (formData_props same_email_form)" same_email_form]
  note at_unselected = referee_email_cross_field
    [of any_email iso_only lagos unselected_gender_form sample_form]
  note at_sample = referee_email_cross_field
    [of any_email iso_only lagos "JObj (formData_props sample_form)" sample_form]
  from at_checks same dirty
  have c1: "([Key ''referee'', Key ''email''], ''Referee's email must be different from your email'')
       \<in> set (snd (applicationSchema no_email iso_only lagos (JObj (formData_props same_email_form))))"
    by blast
  from at_same same clean
  have c2: "([Key ''referee'', Key ''email''], ''Referee's email must be different from your email'')
       \<in> set (snd (applicationSchema any_email iso_only lagos (JObj (formData_props same_email_form))))
     \<and> \<not> safeParse_success (applicationSchema any_email iso_only lagos (JObj (formData_props same_email_form)))"
    by blast
  from at_unselected aborted
  have c3: "\<not> safeParse_success (applicationSchema any_email iso_only lagos unselected_gender_form)"
    by blast
  from at_sample differ
  have "applicationSchema any_email iso_only lagos (JObj (formData_props sample_form))
      = sectionsSchema any_email iso_only lagos (JObj (formData_props sample_form))"
    by blast
  with valid
  have c4: "safeParse_success (applicationSchema any_email iso_only lagos (JObj (formData_props sample_form)))"
    by simp
  from same_email_form_checks same c1 c2 aborted c3 differ c4 show ?thesis
    by (intro conjI) (simp_all only: simp_thms)
qed

section \<open>Submission: what is sent and what is returned\<close>

text \<open>
  Claim C1, on the code. Without a user \<open>submitApplication\<close> sends nothing and returns
  \<open>{success: false, message}\<close> with the not-signed-in message. \<open>handleSubmit\<close> sends
  nothing either, but it returns no result: its \<open>throw\<close> stands before the \<open>try\<close>, and
  the promise is rejected with the error.
\<close>

theorem unauthenticated_submission:
  "handleSubmit fexec None clock fd h w
     = (Inl (Error ''You must be signed in to submit an application''), h, w)
   \<and> submitApplication exec (Fulfilled None) clock fd W
     = (\<lparr>result.success = False, message = ''You must be signed in to submit an application'',
         applicationId = None, error = None\<rparr>,
        W\<lparr>sb_toasts := sb_toasts W @ [ToastError ''You must be signed in to submit an application'']\<rparr>)"
  by (simp add: handleSubmit_def handleSubmit_begin_def submitApplication_def submitApplication_catch_def
      Let_def)

lemma send_requests: "sb_requests (snd (send exec c W)) = sb_requests W @ [c]"
  by (simp add: send_def split: prod.splits)

lemma send_reply: "fst (send exec c W) = fst (exec c (store W))"
  by (simp add: send_def split: prod.splits)

lemma submitApplication_catch_requests:
  "sb_requests (snd (submitApplication_catch err W)) = sb_requests W"
  by (simp add: submitApplication_catch_def Let_def)

lemma submitApplication_requests:
  "sb_requests (snd (submitApplication exec (Fulfilled (Some u)) clock fd W))
     = sb_requests W @ [Insert ''applications'' (submitApplication_data u clock fd)]"
  using send_requests [of exec "Insert ''applications'' (submitApplication_data u clock fd)" W]
  by (auto simp: submitApplication_def submitApplication_catch_requests Let_def
      split: prod.splits settled.splits sb_reply.splits sum.splits)

lemma submitApplication_success:
  assumes "fst (exec (Insert ''applications'' (submitApplication_data u clock fd)) (store W))
             = Fulfilled (SbData (JObj [(''id'', v)]))"
  shows "fst (submitApplication exec (Fulfilled (Some u)) clock fd W)
           = \<lparr>result.success = True, message = ''Application submitted successfully'',
              applicationId = Some v, error = None\<rparr>"
  using assms send_reply [of exec "Insert ''applications'' (submitApplication_data u clock fd)" W]
  by (auto simp: submitApplication_def Let_def split: prod.splits)

lemma handleSubmit_rejected_first:
  assumes "fexec (AddDoc ''applications'' (applicationData fu clock fd)) w = (Rejected err, w1)"
  shows "requests (fst (snd (handleSubmit fexec (Some fu) clock fd h w)))
           = requests h @ [AddDoc ''applications'' (applicationData fu clock fd)]"
  using assms
  by (simp add: handleSubmit_def handleSubmit_begin_def handleSubmit_after_application_def
      handleSubmit_catch_def issue_request_def Let_def)

lemma handleSubmit_fulfilled_first:
  assumes "fexec (AddDoc ''applications'' (applicationData fu clock fd)) w = (Fulfilled docId, w1)"
  shows "requests (fst (snd (handleSubmit fexec (Some fu) clock fd h w)))
           = requests h @ [AddDoc ''applications'' (applicationData fu clock fd),
                           AddDoc (''users/'' @ uid fu @ ''/applications'') (link_doc fd docId)]"
  using assms
  by (simp add: handleSubmit_def handleSubmit_begin_def handleSubmit_after_application_def
      handleSubmit_after_link_def handleSubmit_catch_def issue_request_def Let_def
      split: prod.splits settled.splits)

lemma handleSubmit_success:
  assumes "fexec (AddDoc ''applications'' (applicationData fu clock fd)) w = (Fulfilled docId, w1)"
    and "fst (fexec (AddDoc (''users/'' @ uid fu @ ''/applications'') (link_doc fd docId)) w1)
           = Fulfilled linkId"
  shows "fst (handleSubmit fexec (Some fu) clock fd h w)
           = Inr \<lparr>result.success = True, message = ''Application submitted successfully'',
                  applicationId = Some (JStr docId), error = None\<rparr>"
  using assms
  by (auto simp: handleSubmit_def handleSubmit_begin_def handleSubmit_after_application_def
      handleSubmit_after_link_def issue_request_def Let_def
      split: prod.splits)

text \<open>
  Claim C3 as stated fails for \<open>handleSubmit\<close>: against a backend that accepts every
  insert, one call issues two remote inserts, the second into \<open>users/u1/applications\<close>.
\<close>

theorem handleSubmit_two_inserts:
  "requests (fst (snd (handleSubmit fs_accepts (Some sample_fb_user) sample_clock sample_form (fst idle) ())))
     = [AddDoc ''applications'' (applicationData sample_fb_user sample_clock sample_form),
        AddDoc ''users/u1/applications'' (link_doc sample_form ''doc1'')]"
  using handleSubmit_fulfilled_first [of fs_accepts sample_fb_user sample_clock sample_form "()" "''doc1''" "()" "fst idle"]
  by (simp add: fs_accepts_def idle_def sample_fb_user_def)

text \<open>
  Claim C3, as amended. One call of \<open>submitApplication\<close> with a user sends exactly one
  query, an insert into \<open>applications\<close>, and on success returns the id of the new row.
  One call of \<open>handleSubmit\<close> with a user issues one insert into \<open>applications\<close>; when
  that one is rejected nothing more is sent; when it succeeds a second insert, of the
  link document into \<open>users/<uid>/applications\<close>, follows, and when both succeed the
  result holds the id that the first insert assigned.
\<close>

theorem submission_inserts:
  "sb_requests (snd (submitApplication exec (Fulfilled (Some u)) clock fd W))
     = sb_requests W @ [Insert ''applications'' (submitApplication_data u clock fd)]
   \<and> (fst (exec (Insert ''applications'' (submitApplication_data u clock fd)) (store W))
         = Fulfilled (SbData (JObj [(''id'', v)]))
       \<longrightarrow> fst (submitApplication exec (Fulfilled (Some u)) clock fd W)
           = \<lparr>result.success = True, message = ''Application submitted successfully'',
              applicationId = Some v, error = None\<rparr>)
   \<and> (fexec (AddDoc ''applications'' (applicationData fu clock fd)) w = (Rejected err, w1)
       \<longrightarrow> requests (fst (snd (handleSubmit fexec (Some fu) clock fd h w)))
           = requests h @ [AddDoc ''applications'' (applicationData fu clock fd)])
   \<and> (fexec (AddDoc ''applications'' (applicationData fu clock fd)) w = (Fulfilled docId, w1)
       \<longrightarrow> requests (fst (snd (handleSubmit fexec (Some fu) clock fd h w)))
           = requests h @ [AddDoc ''applications'' (applicationData fu clock fd),
                           AddDoc (''users/'' @ uid fu @ ''/applications'') (link_doc fd docId)]
         \<and> (fst (fexec (AddDoc (''users/'' @ uid fu @ ''/applications'') (link_doc fd docId)) w1)
               = Fulfilled linkId
             \<longrightarrow> fst (handleSubmit fexec (Some fu) clock fd h w)
                 = Inr \<lparr>result.success = True, message = ''Application submitted successfully'',
                        applicationId = Some (JStr docId), error = None\<rparr>))"
  using submitApplication_requests [of exec u clock fd W]
    submitApplication_success [of exec u clock fd W v]
    handleSubmit_rejected_first [of fexec fu clock fd w err w1 h]
    handleSubmit_fulfilled_first [of fexec fu clock fd w docId w1 h]
    handleSubmit_success [of fexec fu clock fd w docId w1 linkId h]
  by blast


text \<open>The amended claim C3 with the sample form, against backends that accept every insert.\<close>

theorem submission_inserts_witness:
  "fst (sb_accepts (Insert ''applications'' (submitApplication_data sample_sb_user sample_clock sample_form))
         (store (fresh_world ())))
     = Fulfilled (SbData (JObj [(''id'', JStr ''a1'')]))
   \<and> fst (submitApplication sb_accepts (Fulfilled (Some sample_sb_user)) sample_clock sample_form
           (fresh_world ()))
     = \<lparr>result.success = True, message = ''Application submitted successfully'',
        applicationId = Some (JStr ''a1''), error = None\<rparr>
   \<and> sb_requests (snd (submitApplication sb_accepts (Fulfilled (Some sample_sb_user)) sample_clock
           sample_form (fresh_world ())))
     = [Insert ''applications'' (submitApplication_data sample_sb_user sample_clock sample_form)]
   \<and> fst (handleSubmit fs_accepts (Some sample_fb_user) sample_clock sample_form (fst idle) ())
     = Inr \<lparr>result.success = True, message = ''Application submitted successfully'',
            applicationId = Some (JStr ''doc1''), error = None\<rparr>"
proof -
  have a: "fst (sb_accepts (Insert ''applications'' (submitApplication_data sample_sb_user sample_clock sample_form))
         (store (fresh_world ())))
     = Fulfilled (SbData (JObj [(''id'', JStr ''a1'')]))"
    by (simp add: sb_accepts_def)
  have b: "fs_accepts (AddDoc ''applications'' (applicationData sample_fb_user sample_clock sample_form)) ()
     = (Fulfilled ''doc1'', ())"
    by (simp add: fs_accepts_def)
  have c: "fst (fs_accepts (AddDoc (''users/'' @ uid sample_fb_user @ ''/applications'')
                  (link_doc sample_form ''doc1'')) ()) = Fulfilled ''doc1''"
    by (simp add: fs_accepts_def)
  show ?thesis
    using a b c
      submission_inserts [of sb_accepts sample_sb_user sample_clock sample_form "fresh_world ()"
        "JStr ''a1''" fs_accepts sample_fb_user "()" _ "()" "fst idle" "''doc1''" "''doc1''"]
    by (simp add: fresh_world_def)
qed

lemma sample_checks: "submitApplicationForm_checks (formData.personalInfo sample_form) = None"
  by (simp add: submitApplicationForm_checks_def sample_form_def sample_personalInfo_def
      emailRegex_def phoneRegex_def plus_def lit_def not_ws_at_def is_ws_def is_digit_def code_unit_def)

lemma submitApplicationForm_requests:
  assumes "submitApplicationForm_checks (formData.personalInfo fd) = None"
  shows "sb_requests (snd (submitApplicationForm exec fd W))
           = sb_requests W @ [Insert ''applications'' (submitApplicationForm_doc fd)]"
  using assms send_requests [of exec "Insert ''applications'' (submitApplicationForm_doc fd)" W]
  by (auto simp: submitApplicationForm_def Let_def
      split: prod.splits settled.splits sb_reply.splits sum.splits)

lemma submitApplicationForm_error_reply:
  assumes "submitApplicationForm_checks (formData.personalInfo fd) = None"
    and "fst (exec (Insert ''applications'' (submitApplicationForm_doc fd)) (store W))
           = Fulfilled (SbError code msg)"
  shows "fst (submitApplicationForm exec fd W)
           = (if code = ''23505''
              then \<lparr>result.success = False, message = ''Duplicate submission detected.'',
                    applicationId = None, error = Some (ErrText msg)\<rparr>
              else \<lparr>result.success = False, message = ''Supabase error: '' @ msg,
                    applicationId = None, error = Some (ErrText msg)\<rparr>)"
  using assms send_reply [of exec "Insert ''applications'' (submitApplicationForm_doc fd)" W]
  by (auto simp: submitApplicationForm_def Let_def split: prod.splits)

lemma submitApplicationForm_rejected:
  assumes "submitApplicationForm_checks (formData.personalInfo fd) = None"
    and "fst (exec (Insert ''applications'' (submitApplicationForm_doc fd)) (store W)) = Rejected err"
  shows "fst (submitApplicationForm exec fd W) = unexpected_error err"
  using assms send_reply [of exec "Insert ''applications'' (submitApplicationForm_doc fd)" W]
  by (auto simp: submitApplicationForm_def Let_def split: prod.splits)

text \<open>
  \<open>submitApplicationForm\<close> reads the code of the error: with 23505 (unique violation) the
  result carries the message of a duplicate submission; with any other code, and when
  the client throws, the result is a failure with another message.
\<close>

lemma submitApplicationForm_duplicate:
  assumes "submitApplicationForm_checks (formData.personalInfo fd) = None"
  shows "(fst (exec (Insert ''applications'' (submitApplicationForm_doc fd)) (store W))
            = Fulfilled (SbError ''23505'' msg)
          \<longrightarrow> fst (submitApplicationForm exec fd W)
              = \<lparr>result.success = False, message = ''Duplicate submission detected.'',
                 applicationId = None, error = Some (ErrText msg)\<rparr>)
       \<and> (fst (exec (Insert ''applications'' (submitApplicationForm_doc fd)) (store W))
            = Fulfilled (SbError code msg) \<and> code \<noteq> ''23505''
          \<longrightarrow> fst (submitApplicationForm exec fd W)
              = \<lparr>result.success = False, message = ''Supabase error: '' @ msg,
                 applicationId = None, error = Some (ErrText msg)\<rparr>
            \<and> result.message (fst (submitApplicationForm exec fd W)) \<noteq> ''Duplicate submission detected.'')
       \<and> (fst (exec (Insert ''applications'' (submitApplicationForm_doc fd)) (store W)) = Rejected err
          \<longrightarrow> \<not> result.success (fst (submitApplicationForm exec fd W))
            \<and> result.message (fst (submitApplicationForm exec fd W)) \<noteq> ''Duplicate submission detected.'')"
  using submitApplicationForm_error_reply [OF assms, of exec W "''23505''" msg]
    submitApplicationForm_error_reply [OF assms, of exec W code msg]
    submitApplicationForm_rejected [OF assms, of exec W err]
  by (auto simp: unexpected_error_def)

lemma submitApplicationForm_sample_error:
  "fst (submitApplicationForm (sb_error code msg) sample_form W)
     = (if code = ''23505''
        then \<lparr>result.success = False, message = ''Duplicate submission detected.'',
              applicationId = None, error = Some (ErrText msg)\<rparr>
        else \<lparr>result.success = False, message = ''Supabase error: '' @ msg,
              applicationId = None, error = Some (ErrText msg)\<rparr>)"
  by (rule submitApplicationForm_error_reply [OF sample_checks]) (simp add: sb_error_def)

lemma submitApplication_error_reply:
  assumes "fst (exec (Insert ''applications'' (submitApplication_data u clock fd)) (store W))
             = Fulfilled (SbError code msg)"
  shows "fst (submitApplication exec (Fulfilled (Some u)) clock fd W)
           = \<lparr>result.success = False, message = msg, applicationId = None, error = None\<rparr>"
  using assms send_reply [of exec "Insert ''applications'' (submitApplication_data u clock fd)" W]
  by (auto simp: submitApplication_def submitApplication_catch_def Let_def split: prod.splits)

text \<open>
  Claim C7. \<open>submitApplication\<close> does not read the code of the error of its insert: it
  throws \<open>new Error(error.message)\<close>, and its \<open>catch\<close> returns that message. When the
  insert fails with the code 23505 (unique violation) the result is the one it returns
  for any other code, such as 08006 (connection failure). \<open>handleSubmit\<close> returns the
  message of whatever error rejects its insert. Only \<open>submitApplicationForm\<close> tells
  the duplicate apart.
\<close>

theorem duplicate_submission_not_distinguished:
  "fst (submitApplication (sb_error code msg) (Fulfilled (Some u)) clock fd W)
     = \<lparr>result.success = False, message = msg, applicationId = None, error = None\<rparr>
   \<and> fst (submitApplication (sb_error ''23505'' msg) (Fulfilled (Some u)) clock fd W)
     = fst (submitApplication (sb_error ''08006'' msg) (Fulfilled (Some u)) clock fd W)
   \<and> sb_requests (snd (submitApplication (sb_error ''23505'' msg) (Fulfilled (Some u)) clock fd W))
     = sb_requests W @ [Insert ''applications'' (submitApplication_data u clock fd)]
   \<and> fst (handleSubmit (fs_rejects msg) (Some fu) clock fd h ())
     = Inr \<lparr>result.success = False, message = msg, applicationId = None, error = None\<rparr>
   \<and> result.message (fst (submitApplicationForm (sb_error ''23505'' msg) sample_form W))
     = ''Duplicate submission detected.''
   \<and> result.message (fst (submitApplicationForm (sb_error ''08006'' msg) sample_form W))
     = ''Supabase error: '' @ msg"
proof -
  have a: "fst (submitApplication (sb_error c msg) (Fulfilled (Some u)) clock fd W)
     = \<lparr>result.success = False, message = msg, applicationId = None, error = None\<rparr>" for c
    by (rule submitApplication_error_reply) (simp add: sb_error_def)
  have b: "fst (handleSubmit (fs_rejects msg) (Some fu) clock fd h ())
     = Inr \<lparr>result.success = False, message = msg, applicationId = None, error = None\<rparr>"
    by (simp add: handleSubmit_def handleSubmit_begin_def handleSubmit_after_application_def
        handleSubmit_catch_def fs_rejects_def Let_def)
  show ?thesis
    by (simp add: a b submitApplication_requests submitApplicationForm_sample_error)
qed

lemma rev_dropWhile_rev: "rev (dropWhile P (rev a)) @ rev (takeWhile P (rev a)) = a"
proof -
  have "rev (takeWhile P (rev a) @ dropWhile P (rev a)) = rev (rev a)" by simp
  then show ?thesis by (simp only: rev_append rev_rev_ident)
qed

lemma trim_surroundings:
  "\<exists>l r. l @ trim s @ r = s \<and> list_all is_ws l \<and> list_all is_ws r"
proof -
  define a where "a = dropWhile is_ws s"
  have s: "takeWhile is_ws s @ a = s" by (simp add: a_def)
  have a: "trim s @ rev (takeWhile is_ws (rev a)) = a"
    unfolding trim_def a_def by (rule rev_dropWhile_rev)
  have l: "list_all is_ws (takeWhile is_ws s)"
    by (auto simp: list_all_iff dest: set_takeWhileD)
  have r: "list_all is_ws (rev (takeWhile is_ws (rev a)))"
    by (auto simp: list_all_iff dest: set_takeWhileD)
  have "takeWhile is_ws s @ trim s @ rev (takeWhile is_ws (rev a)) = s"
    by (simp only: a s)
  with l r show ?thesis by blast
qed

lemma trim_ends:
  assumes "trim s \<noteq> []"
  shows "\<not> is_ws (hd (trim s)) \<and> \<not> is_ws (last (trim s))"
proof -
  define a where "a = dropWhile is_ws s"
  define b where "b = dropWhile is_ws (rev a)"
  have t: "trim s = rev b" by (simp add: trim_def a_def b_def)
  with assms have b: "b \<noteq> []" by simp
  have "\<not> is_ws (hd b)" unfolding b_def using b [unfolded b_def] by (rule hd_dropWhile)
  with b have last: "\<not> is_ws (last (rev b))" by (simp add: last_rev)
  have split: "rev b @ rev (takeWhile is_ws (rev a)) = a"
    unfolding b_def by (rule rev_dropWhile_rev)
  from b have rb: "rev b \<noteq> []" by simp
  have hd: "hd a = hd (rev b)"
    using hd_append2 [OF rb, of "rev (takeWhile is_ws (rev a))"] by (simp only: split)
  have a: "a \<noteq> []"
  proof
    assume "a = []"
    with split have "rev b @ rev (takeWhile is_ws (rev [])) = []" by simp
    with rb show False by simp
  qed
  have "\<not> is_ws (hd a)" unfolding a_def using a [unfolded a_def] by (rule hd_dropWhile)
  with hd last t show ?thesis by simp
qed

text \<open>
  Claim C10. When the checks of \<open>submitApplicationForm\<close> pass, the one query it sends is
  the insert of a document whose \<open>personal_info\<close> holds the trimmed names, the trimmed
  and lower-cased email and the trimmed phone. \<open>trim\<close> removes the white space around a
  string and nothing else (\<open>trim_surroundings\<close>, \<open>trim_ends\<close>).
\<close>

theorem personal_info_sanitized:
  assumes "submitApplicationForm_checks (formData.personalInfo fd) = None"
  shows "sb_requests (snd (submitApplicationForm exec fd W))
           = sb_requests W @ [Insert ''applications'' (submitApplicationForm_doc fd)]
       \<and> js_get (submitApplicationForm_doc fd) ''personal_info''
           = Inr (JObj [(''firstName'', JStr (trim (firstName (formData.personalInfo fd)))),
                        (''lastName'', JStr (trim (lastName (formData.personalInfo fd)))),
                        (''email'', JStr (toLowerCase (trim (personalInfo.email (formData.personalInfo fd))))),
                        (''phone'', JStr (trim (personalInfo.phone (formData.personalInfo fd))))])"
  using submitApplicationForm_requests [OF assms, of exec W]
  by (simp add: submitApplicationForm_doc_def formData_props_def sanitizedPersonalInfo_def)

lemma sample_trims:
  "trim ''  Ada '' = ''Ada''" "trim ''Obi'' = ''Obi''"
  "toLowerCase (trim ''Ada.Obi@Example.COM'') = ''ada.obi@example.com''"
  "trim ''+2348012345678'' = ''+2348012345678''"
  by code_simp+

text \<open>Claim C10 with the sample form: \<open>"  Ada "\<close> and \<open>"Ada.Obi@Example.COM"\<close>.\<close>

theorem personal_info_sanitized_witness:
  "submitApplicationForm_checks (formData.personalInfo sample_form) = None
   \<and> sb_requests (snd (submitApplicationForm sb_accepts sample_form (fresh_world ())))
       = [Insert ''applications'' (submitApplicationForm_doc sample_form)]
   \<and> js_get (submitApplicationForm_doc sample_form) ''personal_info''
       = Inr (JObj [(''firstName'', JStr ''Ada''), (''lastName'', JStr ''Obi''),
                    (''email'', JStr ''ada.obi@example.com''), (''phone'', JStr ''+2348012345678'')])"
  using sample_checks personal_info_sanitized [OF sample_checks, of sb_accepts "fresh_world ()"]
  by (simp add: fresh_world_def sample_form_def sample_personalInfo_def sample_trims)

section \<open>Drafts and the owner of a record\<close>

lemma send_store: "store (snd (send exec c W)) = snd (exec c (store W))"
  by (simp add: send_def split: prod.splits)

lemma saveDraft_requests:
  "sb_requests (snd (saveDraft exec (Fulfilled (Some u)) clock fd draft_id W))
     = sb_requests W @ [draft_call u clock fd draft_id]"
  using send_requests [of exec "draft_call u clock fd draft_id" W]
  by (auto simp: saveDraft_def Let_def split: prod.splits sum.splits)

lemma saveDraft_success:
  assumes "fst (exec (draft_call u clock fd draft_id) (store W)) = Fulfilled (SbData (JObj [(''id'', v)]))"
  shows "fst (saveDraft exec (Fulfilled (Some u)) clock fd draft_id W)
           = Inr \<lparr>draftResult.success = True, draftId = v\<rparr>"
  using assms send_reply [of exec "draft_call u clock fd draft_id" W]
  by (auto simp: saveDraft_def data_or_throw_def Let_def split: prod.splits)

lemma draft_call_cases:
  "\<not> given draft_id \<Longrightarrow> draft_call u clock fd draft_id = draft_insert u clock fd"
  "d \<noteq> [] \<Longrightarrow> draft_call u clock fd (Some d) = draft_update u clock fd d"
  by (auto simp: given_def draft_call_def split: option.splits)

text \<open>
  Claim C8. With a user, \<open>saveDraft\<close> without a \<open>draftId\<close> sends one insert, of a row
  with the status \<open>draft\<close> and a \<open>created_at\<close>; with a \<open>draftId\<close> it sends one update,
  filtered by \<open>id\<close> and by the caller's \<open>user_id\<close>, and no insert. A missing section is
  stored as \<open>{}\<close>, and the call succeeds whenever the store answers with a row.
\<close>

theorem saveDraft_insert_or_update:
  "(\<not> given draft_id \<longrightarrow>
      sb_requests (snd (saveDraft exec (Fulfilled (Some u)) clock fd draft_id W))
        = sb_requests W
          @ [Insert ''applications'' (JObj (draftData u clock fd @ [(''created_at'', JStr (clock 1))]))])
   \<and> (d \<noteq> [] \<longrightarrow>
      sb_requests (snd (saveDraft exec (Fulfilled (Some u)) clock fd (Some d) W))
        = sb_requests W
          @ [Update ''applications'' (JObj (draftData u clock fd)) [(''id'', d), (''user_id'', user_id u)]])
   \<and> js_get (JObj (draftData u clock fd @ [(''created_at'', JStr (clock 1))])) ''status''
       = Inr (JStr ''draft'')
   \<and> js_get (JObj (draftData u clock fd @ [(''created_at'', JStr (clock 1))])) ''created_at''
       = Inr (JStr (clock 1))
   \<and> (partialFormData.personalInfo fd = None \<longrightarrow>
        js_get (JObj (draftData u clock fd)) ''personal_info'' = Inr (JObj []))
   \<and> (partialFormData.academicBackground fd = None \<longrightarrow>
        js_get (JObj (draftData u clock fd)) ''academic_background'' = Inr (JObj []))
   \<and> (partialFormData.programSelection fd = None \<longrightarrow>
        js_get (JObj (draftData u clock fd)) ''program_selection'' = Inr (JObj []))
   \<and> (partialFormData.accommodation fd = None \<longrightarrow>
        js_get (JObj (draftData u clock fd)) ''accommodation'' = Inr (JObj []))
   \<and> (partialFormData.referee fd = None \<longrightarrow>
        js_get (JObj (draftData u clock fd)) ''referee'' = Inr (JObj []))
   \<and> (fst (exec (draft_call u clock fd draft_id) (store W)) = Fulfilled (SbData (JObj [(''id'', v)]))
       \<longrightarrow> fst (saveDraft exec (Fulfilled (Some u)) clock fd draft_id W)
           = Inr \<lparr>draftResult.success = True, draftId = v\<rparr>)"
proof -
  have ins: "\<not> given draft_id \<Longrightarrow>
      sb_requests (snd (saveDraft exec (Fulfilled (Some u)) clock fd draft_id W))
        = sb_requests W
          @ [Insert ''applications'' (JObj (draftData u clock fd @ [(''created_at'', JStr (clock 1))]))]"
    by (simp add: saveDraft_requests draft_call_cases draft_insert_def)
  have upd: "d \<noteq> [] \<Longrightarrow>
      sb_requests (snd (saveDraft exec (Fulfilled (Some u)) clock fd (Some d) W))
        = sb_requests W
          @ [Update ''applications'' (JObj (draftData u clock fd)) [(''id'', d), (''user_id'', user_id u)]]"
    by (simp add: saveDraft_requests draft_call_cases draft_update_def)
  have cols: "js_get (JObj (draftData u clock fd @ [(''created_at'', JStr (clock 1))])) ''status''
       = Inr (JStr ''draft'')"
    "js_get (JObj (draftData u clock fd @ [(''created_at'', JStr (clock 1))])) ''created_at''
       = Inr (JStr (clock 1))"
    by (simp_all add: draftData_def)
  have empty: "partialFormData.personalInfo fd = None \<Longrightarrow>
        js_get (JObj (draftData u clock fd)) ''personal_info'' = Inr (JObj [])"
    "partialFormData.academicBackground fd = None \<Longrightarrow>
        js_get (JObj (draftData u clock fd)) ''academic_background'' = Inr (JObj [])"
    "partialFormData.programSelection fd = None \<Longrightarrow>
        js_get (JObj (draftData u clock fd)) ''program_selection'' = Inr (JObj [])"
    "partialFormData.accommodation fd = None \<Longrightarrow>
        js_get (JObj (draftData u clock fd)) ''accommodation'' = Inr (JObj [])"
    "partialFormData.referee fd = None \<Longrightarrow>
        js_get (JObj (draftData u clock fd)) ''referee'' = Inr (JObj [])"
    by (simp_all add: draftData_def or_empty_def)
  show ?thesis
    using ins upd cols empty saveDraft_success [of exec u clock fd draft_id W v]
    by blast
qed

text \<open>Claim C8 with the empty draft, first without and then with the id \<open>a1\<close>.\<close>

theorem saveDraft_insert_or_update_witness:
  "\<not> given None
   \<and> sb_requests (snd (saveDraft sb_accepts (Fulfilled (Some sample_sb_user)) sample_clock empty_draft None
         (fresh_world ())))
       = [Insert ''applications''
            (JObj (draftData sample_sb_user sample_clock empty_draft
                   @ [(''created_at'', JStr ''2025-02-01T10:00:00.000Z'')]))]
   \<and> sb_requests (snd (saveDraft sb_accepts (Fulfilled (Some sample_sb_user)) sample_clock empty_draft
         (Some ''a1'') (fresh_world ())))
       = [Update ''applications'' (JObj (draftData sample_sb_user sample_clock empty_draft))
            [(''id'', ''a1''), (''user_id'', ''u1'')]]
   \<and> partialFormData.personalInfo empty_draft = None
   \<and> js_get (JObj (draftData sample_sb_user sample_clock empty_draft)) ''personal_info'' = Inr (JObj [])
   \<and> fst (saveDraft sb_accepts (Fulfilled (Some sample_sb_user)) sample_clock empty_draft None
         (fresh_world ()))
       = Inr \<lparr>draftResult.success = True, draftId = JStr ''a1''\<rparr>"
proof -
  have g: "\<not> given None" "''a1'' \<noteq> []" by (simp_all add: given_def)
  have e: "partialFormData.personalInfo empty_draft = None" by (simp add: empty_draft_def)
  have r: "fst (sb_accepts (draft_call sample_sb_user sample_clock empty_draft None) (store (fresh_world ())))
             = Fulfilled (SbData (JObj [(''id'', JStr ''a1'')]))"
    by (simp add: sb_accepts_def)
  show ?thesis
    using g e r
      saveDraft_insert_or_update [of None sb_accepts sample_sb_user sample_clock empty_draft
        "fresh_world ()" "''a1''" "JStr ''a1''"]
    by (simp add: fresh_world_def sample_clock_def sample_sb_user_def)
qed

lemma saveDraft_store:
  "store (snd (saveDraft exec (Fulfilled (Some u)) clock fd draft_id W))
     = snd (exec (draft_call u clock fd draft_id) (store W))"
  using send_store [of exec "draft_call u clock fd draft_id" W]
  by (auto simp: saveDraft_def Let_def split: prod.splits sum.splits)

lemma getUserApplications_requests:
  "sb_requests (snd (getUserApplications exec (Fulfilled (Some u)) W))
     = sb_requests W @ [Select ''applications'' [(''user_id'', user_id u)] (Some (''created_at'', False))]"
  using send_requests [of exec "Select ''applications'' [(''user_id'', user_id u)] (Some (''created_at'', False))" W]
  by (auto simp: getUserApplications_def Let_def split: prod.splits)

lemma getApplicationById_requests:
  "sb_requests (snd (getApplicationById exec (Fulfilled (Some u)) aid W))
     = sb_requests W @ [SelectSingle ''applications'' [(''id'', aid), (''user_id'', user_id u)]]"
  using send_requests [of exec "SelectSingle ''applications'' [(''id'', aid), (''user_id'', user_id u)]" W]
  by (auto simp: getApplicationById_def Let_def split: prod.splits)

lemma set_ordered: "set (ordered ord rs) = set rs"
  by (simp add: ordered_def split: option.splits prod.splits)

lemma filter_single:
  assumes "filter P xs = [r]"
  shows "r \<in> set xs \<and> P r"
proof -
  have "r \<in> set (filter P xs)" by (simp add: assms)
  then show ?thesis by simp
qed

lemma getUserApplications_table:
  assumes "fst (getUserApplications table_exec (Fulfilled (Some u)) W) = Inr (JArr rs)"
    and "r \<in> set rs"
  shows "r \<in> set (rows (store W)) \<and> js_get r ''user_id'' = Inr (JStr (user_id u))"
proof -
  have "fst (getUserApplications table_exec (Fulfilled (Some u)) W)
      = Inr (JArr (ordered (Some (''created_at'', False))
                    (filter (row_matches [(''user_id'', user_id u)]) (rows (store W)))))"
    using send_reply [of table_exec "Select ''applications'' [(''user_id'', user_id u)] (Some (''created_at'', False))" W]
    by (auto simp: getUserApplications_def data_or_throw_def Let_def split: prod.splits)
  with assms have "rs = ordered (Some (''created_at'', False))
                    (filter (row_matches [(''user_id'', user_id u)]) (rows (store W)))"
    by simp
  with assms(2) have "r \<in> set (filter (row_matches [(''user_id'', user_id u)]) (rows (store W)))"
    by (simp only: set_ordered)
  then show ?thesis by (simp add: row_matches_def)
qed

lemma getApplicationById_table:
  assumes "fst (getApplicationById table_exec (Fulfilled (Some u)) aid W) = Inr r"
  shows "r \<in> set (rows (store W)) \<and> js_get r ''id'' = Inr (JStr aid)
         \<and> js_get r ''user_id'' = Inr (JStr (user_id u))"
proof -
  let ?fs = "[(''id'', aid), (''user_id'', user_id u)]"
  have e: "fst (getApplicationById table_exec (Fulfilled (Some u)) aid W)
      = data_or_throw (fst (table_exec (SelectSingle ''applications'' ?fs) (store W)))"
    using send_reply [of table_exec "SelectSingle ''applications'' ?fs" W]
    by (auto simp: getApplicationById_def Let_def split: prod.splits)
  from assms e have "filter (row_matches ?fs) (rows (store W)) = [r]"
    by (auto simp: data_or_throw_def not_single_def split: list.splits)
  from filter_single [OF this] show ?thesis by (simp add: row_matches_def)
qed

lemma table_update_rows:
  "length (rows (snd (table_exec (Update t patch fs) T))) = length (rows T)
   \<and> (\<forall>i < length (rows T). \<not> row_matches fs (rows T ! i)
        \<longrightarrow> rows (snd (table_exec (Update t patch fs) T)) ! i = rows T ! i)"
  by (auto split: list.splits)

lemma saveDraft_table:
  assumes "d \<noteq> []"
  shows "length (rows (store (snd (saveDraft table_exec (Fulfilled (Some u)) clock fd (Some d) W))))
           = length (rows (store W))"
    and "i < length (rows (store W)) \<Longrightarrow>
         js_get (rows (store W) ! i) ''user_id'' \<noteq> Inr (JStr (user_id u)) \<Longrightarrow>
         rows (store (snd (saveDraft table_exec (Fulfilled (Some u)) clock fd (Some d) W))) ! i
           = rows (store W) ! i"
    and "i < length (rows (store W)) \<Longrightarrow>
         js_get (rows (store W) ! i) ''id'' \<noteq> Inr (JStr d) \<Longrightarrow>
         rows (store (snd (saveDraft table_exec (Fulfilled (Some u)) clock fd (Some d) W))) ! i
           = rows (store W) ! i"
  using table_update_rows [of "''applications''" "JObj (draftData u clock fd)"
      "[(''id'', d), (''user_id'', user_id u)]" "store W"]
  by (simp_all add: saveDraft_store draft_call_cases(2)[OF assms] draft_update_def row_matches_def)

text \<open>
  Claim C9. The query of \<open>getUserApplications\<close> filters by the caller's \<open>user_id\<close>;
  those of \<open>getApplicationById\<close> and of the update of \<open>saveDraft\<close> filter by \<open>id\<close> and
  by the caller's \<open>user_id\<close>. On a table, every row they return is a row of the caller
  (with the id asked for), and the update leaves every row of another user, and every
  row of another id, as it was, and adds none.
\<close>

theorem owner_scoped_access:
  "sb_requests (snd (getUserApplications exec (Fulfilled (Some u)) W))
     = sb_requests W @ [Select ''applications'' [(''user_id'', user_id u)] (Some (''created_at'', False))]
   \<and> sb_requests (snd (getApplicationById exec (Fulfilled (Some u)) aid W))
     = sb_requests W @ [SelectSingle ''applications'' [(''id'', aid), (''user_id'', user_id u)]]
   \<and> (d \<noteq> [] \<longrightarrow>
       sb_requests (snd (saveDraft exec (Fulfilled (Some u)) clock fd (Some d) W))
         = sb_requests W
           @ [Update ''applications'' (JObj (draftData u clock fd)) [(''id'', d), (''user_id'', user_id u)]])
   \<and> (fst (getUserApplications table_exec (Fulfilled (Some u)) V) = Inr (JArr rs) \<and> r \<in> set rs
       \<longrightarrow> r \<in> set (rows (store V)) \<and> js_get r ''user_id'' = Inr (JStr (user_id u)))
   \<and> (fst (getApplicationById table_exec (Fulfilled (Some u)) aid V) = Inr r
       \<longrightarrow> r \<in> set (rows (store V)) \<and> js_get r ''id'' = Inr (JStr aid)
           \<and> js_get r ''user_id'' = Inr (JStr (user_id u)))
   \<and> (d \<noteq> [] \<and> i < length (rows (store V))
       \<and> (js_get (rows (store V) ! i) ''user_id'' \<noteq> Inr (JStr (user_id u))
           \<or> js_get (rows (store V) ! i) ''id'' \<noteq> Inr (JStr d))
       \<longrightarrow> rows (store (snd (saveDraft table_exec (Fulfilled (Some u)) clock fd (Some d) V))) ! i
             = rows (store V) ! i
           \<and> length (rows (store (snd (saveDraft table_exec (Fulfilled (Some u)) clock fd (Some d) V))))
             = length (rows (store V)))"
  using getUserApplications_requests [of exec u W] getApplicationById_requests [of exec u aid W]
    saveDraft_requests [of exec u clock fd "Some d" W] draft_call_cases(2) [of d u clock fd]
    getUserApplications_table [of u V rs r] getApplicationById_table [of u aid V r]
    saveDraft_table(1) [where d=d and W=V and u=u and clock=clock and fd=fd]
    saveDraft_table(2) [where d=d and W=V and u=u and clock=clock and fd=fd and i=i]
    saveDraft_table(3) [where d=d and W=V and u=u and clock=clock and fd=fd and i=i]
  by (auto simp: draft_update_def)

lemma row_values:
  "js_get row_of_u1 ''user_id'' = Inr (JStr ''u1'')" "js_get row_of_u1 ''id'' = Inr (JStr ''a1'')"
  "js_get row_of_u2 ''user_id'' = Inr (JStr ''u2'')" "js_get row_of_u2 ''id'' = Inr (JStr ''a2'')"
  by (simp_all add: row_of_u1_def row_of_u2_def)

lemma sample_listing:
  "fst (getUserApplications table_exec (Fulfilled (Some sample_sb_user)) (fresh_world sample_table))
     = Inr (JArr [row_of_u1])"
  by (simp add: getUserApplications_def send_def fresh_world_def sample_table_def sample_sb_user_def
      data_or_throw_def row_matches_def row_values ordered_def)

lemma sample_lookup:
  "fst (getApplicationById table_exec (Fulfilled (Some sample_sb_user)) ''a1'' (fresh_world sample_table))
     = Inr row_of_u1"
  "fst (getApplicationById table_exec (Fulfilled (Some sample_sb_user)) ''a2'' (fresh_world sample_table))
     = Inl (Error ''JSON object requested, multiple (or no) rows returned'')"
  by (simp_all add: getApplicationById_def send_def fresh_world_def sample_table_def sample_sb_user_def
      data_or_throw_def row_matches_def row_values not_single_def)

text \<open>
  Claim C9 on the sample table, for the user \<open>u1\<close>: the listing and the lookup return the
  row of \<open>u1\<close>, and saving a draft under the id \<open>a2\<close> of user \<open>u2\<close> leaves that row alone.
\<close>

theorem owner_scoped_access_witness:
  "fst (getUserApplications table_exec (Fulfilled (Some sample_sb_user)) (fresh_world sample_table))
     = Inr (JArr [row_of_u1])
   \<and> js_get row_of_u1 ''user_id'' = Inr (JStr (user_id sample_sb_user))
   \<and> fst (getApplicationById table_exec (Fulfilled (Some sample_sb_user)) ''a1'' (fresh_world sample_table))
     = Inr row_of_u1
   \<and> js_get (rows (store (fresh_world sample_table)) ! 1) ''user_id'' \<noteq> Inr (JStr (user_id sample_sb_user))
   \<and> rows (store (snd (saveDraft table_exec (Fulfilled (Some sample_sb_user)) sample_clock empty_draft
             (Some ''a2'') (fresh_world sample_table)))) ! 1
     = row_of_u2"
proof -
  have m: "row_of_u1 \<in> set [row_of_u1]" by simp
  have d: "''a2'' \<noteq> []" by simp
  have i: "1 < length (rows (store (fresh_world sample_table)))"
    by (simp add: fresh_world_def sample_table_def)
  have o: "js_get (rows (store (fresh_world sample_table)) ! 1) ''user_id''
             \<noteq> Inr (JStr (user_id sample_sb_user))"
    by (simp add: fresh_world_def sample_table_def sample_sb_user_def row_values)
  have r: "rows (store (fresh_world sample_table)) ! 1 = row_of_u2"
    by (simp add: fresh_world_def sample_table_def)
  show ?thesis
    using m d i o r sample_listing sample_lookup(1)
      owner_scoped_access [where u = sample_sb_user and V = "fresh_world sample_table"
        and rs = "[row_of_u1]" and r = row_of_u1 and aid = "''a1''" and d = "''a2''" and i = 1
        and clock = sample_clock and fd = empty_draft and exec = table_exec
        and W = "fresh_world sample_table"]
    by simp
qed

section \<open>The submission state machine\<close>

lemma step_at_most_one:
  assumes "at_most_one s" and "allowed s ev"
  shows "at_most_one (step clock s ev)"
proof (cases s)
  case (Pair h ps)
  show ?thesis
  proof (cases ev)
    case (Submit user fd)
    with assms Pair have "ps = []" by (auto simp: at_most_one_def)
    with Submit Pair assms show ?thesis
      by (auto simp: at_most_one_def handleSubmit_begin_def issue_request_def split: option.splits)
  next
    case (Settle i r)
    show ?thesis
    proof (cases "i < length ps")
      case False
      with assms Settle Pair show ?thesis by simp
    next
      case True
      with assms Pair obtain p where ps: "ps = [p]" and i: "i = 0"
        by (cases ps) (auto simp: at_most_one_def)
      from assms Pair ps have sub: "isSubmitting h" by (simp add: at_most_one_def)
      show ?thesis
        using sub
        by (cases p; cases r)
          (simp_all add: Pair Settle ps i at_most_one_def handleSubmit_after_application_def
            handleSubmit_after_link_def handleSubmit_catch_def issue_request_def remove_nth_def Let_def)
    qed
  next
    case ResetForm
    with assms Pair show ?thesis by (simp add: at_most_one_def resetForm_def)
  qed
qed

lemma run_guarded_at_most_one:
  "at_most_one s \<Longrightarrow> run_guarded clock s evs = Some s' \<Longrightarrow> at_most_one s'"
proof (induction evs arbitrary: s)
  case Nil
  then show ?case by simp
next
  case (Cons ev evs)
  from Cons.prems(2) have a: "allowed s ev" and r: "run_guarded clock (step clock s ev) evs = Some s'"
    by (simp_all split: if_splits)
  from Cons.IH [OF step_at_most_one [OF Cons.prems(1) a] r] show ?case .
qed

lemma run_guarded_run: "run_guarded clock s evs = Some s' \<Longrightarrow> s' = run clock s evs"
  by (induction evs arbitrary: s) (simp_all add: run_def split: if_splits)

lemma handleSubmit_clears:
  "\<not> isSubmitting (fst (snd (handleSubmit fexec (Some u) clock fd h w)))"
  by (auto simp: handleSubmit_def handleSubmit_begin_def handleSubmit_after_application_def
      handleSubmit_after_link_def handleSubmit_catch_def issue_request_def Let_def
      split: prod.splits settled.splits)

text \<open>
  Claim C2, as amended. \<open>handleSubmit\<close> sets \<open>isSubmitting\<close> on entry and clears it
  when the call settles, on success and on failure alike; it never reads the flag, and
  a submit request made while a submission is in flight starts another call. When the
  caller requests a submission only while \<open>isSubmitting\<close> is false, and does not reset
  the form during a submission, no execution from the idle state has two remote
  inserts in flight, and \<open>isSubmitting\<close> is set exactly while one is.
\<close>

theorem guarded_submissions_never_overlap:
  "(run_guarded clock idle evs = Some s \<longrightarrow>
      s = run clock idle evs \<and> in_flight s \<le> 1 \<and> (isSubmitting (fst s) \<longleftrightarrow> in_flight s = 1))
   \<and> isSubmitting (fst (step clock (h, ps) (Submit (Some u) fd)))
   \<and> in_flight (step clock (h, ps) (Submit (Some u) fd)) = Suc (length ps)
   \<and> \<not> isSubmitting (snd (handleSubmit_catch err h))
   \<and> \<not> isSubmitting (snd (handleSubmit_after_link docId r h))
   \<and> \<not> isSubmitting (fst (snd (handleSubmit fexec (Some u) clock fd h w)))"
proof -
  have guarded: "s = run clock idle evs \<and> in_flight s \<le> 1 \<and> (isSubmitting (fst s) \<longleftrightarrow> in_flight s = 1)"
    if g: "run_guarded clock idle evs = Some s"
  proof -
    have "at_most_one idle" by (simp add: at_most_one_def idle_def)
    from run_guarded_at_most_one [OF this g]
    have "in_flight s \<le> 1 \<and> (isSubmitting (fst s) \<longleftrightarrow> in_flight s = 1)"
      by (cases "snd s") (auto simp: at_most_one_def in_flight_def)
    with run_guarded_run [OF g] show ?thesis by simp
  qed
  have entry: "isSubmitting (fst (step clock (h, ps) (Submit (Some u) fd)))"
    "in_flight (step clock (h, ps) (Submit (Some u) fd)) = Suc (length ps)"
    by (simp_all add: handleSubmit_begin_def issue_request_def in_flight_def)
  have settled: "\<not> isSubmitting (snd (handleSubmit_catch err h))"
    "\<not> isSubmitting (snd (handleSubmit_after_link docId r h))"
    by (simp_all add: handleSubmit_catch_def handleSubmit_after_link_def Let_def split: settled.splits)
  from guarded entry settled handleSubmit_clears [of fexec u clock fd h w] show ?thesis
    by blast
qed

text \<open>
  Claim C2 as stated fails: a second submit request while the first is in flight issues
  a second insert into \<open>applications\<close>, and two inserts are in flight.
\<close>

theorem reentrant_submit_counterexample:
  "in_flight (run sample_clock idle
      [Submit (Some sample_fb_user) sample_form, Submit (Some sample_fb_user) sample_form]) = 2
   \<and> requests (fst (run sample_clock idle
      [Submit (Some sample_fb_user) sample_form, Submit (Some sample_fb_user) sample_form]))
     = [AddDoc ''applications'' (applicationData sample_fb_user sample_clock sample_form),
        AddDoc ''applications'' (applicationData sample_fb_user sample_clock sample_form)]"
  by (simp add: run_def idle_def in_flight_def handleSubmit_begin_def issue_request_def)

text \<open>
  The amended claim C2 on a guarded run: a submission whose insert is rejected, a second
  one that succeeds, then a third request.
\<close>

theorem guarded_submissions_never_overlap_witness:
  "run_guarded sample_clock idle
      [Submit (Some sample_fb_user) sample_form, Settle 0 (Rejected (Error ''offline'')),
       Submit (Some sample_fb_user) sample_form, Settle 0 (Fulfilled ''doc1''),
       Settle 0 (Fulfilled ''link1''), Submit (Some sample_fb_user) sample_form] \<noteq> None
   \<and> in_flight (run sample_clock idle
      [Submit (Some sample_fb_user) sample_form, Settle 0 (Rejected (Error ''offline'')),
       Submit (Some sample_fb_user) sample_form, Settle 0 (Fulfilled ''doc1''),
       Settle 0 (Fulfilled ''link1''), Submit (Some sample_fb_user) sample_form]) = 1
   \<and> isSubmitting (fst (run sample_clock idle
      [Submit (Some sample_fb_user) sample_form, Settle 0 (Rejected (Error ''offline'')),
       Submit (Some sample_fb_user) sample_form, Settle 0 (Fulfilled ''doc1''),
       Settle 0 (Fulfilled ''link1''), Submit (Some sample_fb_user) sample_form]))
   \<and> run_guarded sample_clock idle
      [Submit (Some sample_fb_user) sample_form, Settle 0 (Rejected (Error ''offline''))] \<noteq> None
   \<and> in_flight (run sample_clock idle
      [Submit (Some sample_fb_user) sample_form, Settle 0 (Rejected (Error ''offline''))]) = 0
   \<and> \<not> isSubmitting (fst (run sample_clock idle
      [Submit (Some sample_fb_user) sample_form, Settle 0 (Rejected (Error ''offline''))]))"
proof -
  let ?evs = "[Submit (Some sample_fb_user) sample_form, Settle 0 (Rejected (Error ''offline'')),
       Submit (Some sample_fb_user) sample_form, Settle 0 (Fulfilled ''doc1''),
       Settle 0 (Fulfilled ''link1''), Submit (Some sample_fb_user) sample_form]"
  let ?failed = "[Submit (Some sample_fb_user) sample_form, Settle 0 (Rejected (Error ''offline''))]"
  have ne: "run_guarded sample_clock idle ?evs \<noteq> None"
    by (simp add: idle_def handleSubmit_begin_def handleSubmit_after_application_def
        handleSubmit_after_link_def handleSubmit_catch_def issue_request_def remove_nth_def Let_def)
  then obtain s where s: "run_guarded sample_clock idle ?evs = Some s" by blast
  have nf: "run_guarded sample_clock idle ?failed \<noteq> None"
    by (simp add: idle_def handleSubmit_begin_def handleSubmit_after_application_def
        handleSubmit_catch_def issue_request_def remove_nth_def Let_def)
  then obtain t where t: "run_guarded sample_clock idle ?failed = Some t" by blast
  have one: "in_flight (run sample_clock idle ?evs) = 1"
    by (simp add: run_def in_flight_def idle_def handleSubmit_begin_def
        handleSubmit_after_application_def handleSubmit_after_link_def handleSubmit_catch_def
        issue_request_def remove_nth_def Let_def)
  have none: "in_flight (run sample_clock idle ?failed) = 0"
    by (simp add: run_def in_flight_def idle_def handleSubmit_begin_def
        handleSubmit_after_application_def handleSubmit_catch_def issue_request_def remove_nth_def Let_def)
  have g1: "run_guarded sample_clock idle ?evs = Some s \<longrightarrow>
      s = run sample_clock idle ?evs \<and> in_flight s \<le> 1 \<and> (isSubmitting (fst s) \<longleftrightarrow> in_flight s = 1)"
    by (rule conjunct1 [OF guarded_submissions_never_overlap [of sample_clock ?evs s]])
  have g2: "run_guarded sample_clock idle ?failed = Some t \<longrightarrow>
      t = run sample_clock idle ?failed \<and> in_flight t \<le> 1 \<and> (isSubmitting (fst t) \<longleftrightarrow> in_flight t = 1)"
    by (rule conjunct1 [OF guarded_submissions_never_overlap [of sample_clock ?failed t]])
  from g1 s have e1: "s = run sample_clock idle ?evs"
    and f1: "isSubmitting (fst s) \<longleftrightarrow> in_flight s = 1" by blast+
  from g2 t have e2: "t = run sample_clock idle ?failed"
    and f2: "isSubmitting (fst t) \<longleftrightarrow> in_flight t = 1" by blast+
  from f1 one have a: "isSubmitting (fst (run sample_clock idle ?evs))"
    unfolding e1 by simp
  from f2 none have b: "\<not> isSubmitting (fst (run sample_clock idle ?failed))"
    unfolding e2 by simp
  from ne nf one none a b show ?thesis by (intro conjI)
qed

end
